theory Spec2Isabelle
  imports Complex_Main
begin

section \<open>Errors (utils/errors.ts)\<close>

text \<open>
  The subclasses of \<open>ApiError\<close>, each carrying its message. A function that throws
  returns \<open>Inl\<close> of the error; a \<open>try\<close>/\<open>catch\<close> is a case analysis on the sum.
\<close>

datatype error =
    BadRequestError string
  | UnauthorizedError string
  | ForbiddenError string
  | NotFoundError string
  | ConflictError string
  | InternalServerError string

section \<open>The user table (services/userService.ts, interface User)\<close>

text \<open>
  One row of \<open>cjpol_users\<close>. The fields are those of the interface \<open>User\<close>, prefixed
  with \<open>u_\<close>; an optional (nullable) column is an \<open>option\<close>. The \<open>number\<close> in
  \<open>credits\<close> holds an integer and is modelled by \<open>int\<close> (see the section on numbers).
  The column \<open>password_hash\<close>, which \<open>createUser\<close> fills with the empty string and
  nothing reads, is left out.
\<close>

record User =
  u_id :: string
  u_email :: string
  u_name :: string
  u_role :: string
  u_credits :: int
  u_subscription :: string
  u_active :: bool
  u_wordpress_id :: "string option"
  u_picture :: "string option"
  u_wordpress_membership_id :: "int option"
  u_wordpress_membership_name :: "string option"
  u_wordpress_membership_updated :: "string option"
  u_created_at :: string
  u_updated_at :: string

text \<open>
  The argument of \<open>updateUser\<close>, a \<open>Partial<Omit<User, 'id' | 'created_at'>>\<close>: a key that
  is absent or \<open>undefined\<close> is \<open>None\<close> and leaves its column as it is (the client
  serialises the object as JSON, which drops such keys).
\<close>

record UserPatch =
  p_email :: "string option"
  p_name :: "string option"
  p_role :: "string option"
  p_credits :: "int option"
  p_subscription :: "string option"
  p_active :: "bool option"
  p_wordpress_id :: "string option option"
  p_picture :: "string option option"
  p_wordpress_membership_id :: "int option option"
  p_wordpress_membership_name :: "string option option"
  p_wordpress_membership_updated :: "string option option"
  p_updated_at :: "string option"

definition no_patch :: UserPatch where
  "no_patch = \<lparr> p_email = None, p_name = None, p_role = None, p_credits = None,
     p_subscription = None, p_active = None, p_wordpress_id = None, p_picture = None,
     p_wordpress_membership_id = None, p_wordpress_membership_name = None,
     p_wordpress_membership_updated = None, p_updated_at = None \<rparr>"

definition set_col :: "'a option \<Rightarrow> 'a \<Rightarrow> 'a" where
  "set_col new old = (case new of None \<Rightarrow> old | Some v \<Rightarrow> v)"

definition apply_patch :: "UserPatch \<Rightarrow> User \<Rightarrow> User" where
  "apply_patch p u = u\<lparr>
     u_email := set_col (p_email p) (u_email u),
     u_name := set_col (p_name p) (u_name u),
     u_role := set_col (p_role p) (u_role u),
     u_credits := set_col (p_credits p) (u_credits u),
     u_subscription := set_col (p_subscription p) (u_subscription u),
     u_active := set_col (p_active p) (u_active u),
     u_wordpress_id := set_col (p_wordpress_id p) (u_wordpress_id u),
     u_picture := set_col (p_picture p) (u_picture u),
     u_wordpress_membership_id :=
       set_col (p_wordpress_membership_id p) (u_wordpress_membership_id u),
     u_wordpress_membership_name :=
       set_col (p_wordpress_membership_name p) (u_wordpress_membership_name u),
     u_wordpress_membership_updated :=
       set_col (p_wordpress_membership_updated p) (u_wordpress_membership_updated u),
     u_updated_at := set_col (p_updated_at p) (u_updated_at u) \<rparr>"

section \<open>The world: table, clock, identifiers and storage failures\<close>

text \<open>
  Everything the services read from outside is a field of the world:
  \<^item> \<open>cjpol_users\<close>: the rows of the table;
  \<^item> \<open>faults\<close>: one flag for each coming request to the store, \<open>True\<close> when that request
    comes back with an error (network, constraint, anything); once the list is used up
    every request succeeds. The unique indexes of the table are not modelled apart
    from this: a request that the database would refuse is a failing request;
  \<^item> \<open>now_iso\<close>: what \<open>new Date().toISOString()\<close> returns;
  \<^item> \<open>now_epoch\<close>: the same clock in seconds, as the token library reads it;
  \<^item> \<open>next_uuid\<close>: what \<open>uuidv4()\<close> returns.
\<close>

record world =
  cjpol_users :: "User list"
  faults :: "bool list"
  now_iso :: string
  now_epoch :: int
  next_uuid :: string

definition db_request :: "world \<Rightarrow> bool \<times> world" where
  "db_request w = (case faults w of [] \<Rightarrow> (False, w) | f # fs \<Rightarrow> (f, w\<lparr>faults := fs\<rparr>))"

text \<open>\<open>.single()\<close>: the one row of the result, an error unless there is exactly one.\<close>

fun single :: "'a list \<Rightarrow> 'a option" where
  "single [x] = Some x"
| "single _ = None"

text \<open>\<open>.from('cjpol_users').select('*').eq(col, v).single()\<close>; \<open>None\<close> is \<open>error || !data\<close>.\<close>

definition select_single :: "(User \<Rightarrow> bool) \<Rightarrow> world \<Rightarrow> User option \<times> world" where
  "select_single p w =
     (case db_request w of
        (True, w') \<Rightarrow> (None, w')
      | (False, w') \<Rightarrow> (single (filter p (cjpol_users w')), w'))"

text \<open>\<open>.insert(row).select().single()\<close>\<close>

definition insert_single :: "User \<Rightarrow> world \<Rightarrow> User option \<times> world" where
  "insert_single row w =
     (case db_request w of
        (True, w') \<Rightarrow> (None, w')
      | (False, w') \<Rightarrow> (Some row, w'\<lparr>cjpol_users := cjpol_users w' @ [row]\<rparr>))"

text \<open>
  \<open>.update(patch).eq('id', id).select().single()\<close>: a request that does not match exactly
  one row is an error and changes nothing.
\<close>

definition update_single :: "string \<Rightarrow> UserPatch \<Rightarrow> world \<Rightarrow> User option \<times> world" where
  "update_single i p w =
     (case db_request w of
        (True, w') \<Rightarrow> (None, w')
      | (False, w') \<Rightarrow>
          (case single (filter (\<lambda>u. u_id u = i) (cjpol_users w')) of
             None \<Rightarrow> (None, w')
           | Some u \<Rightarrow>
               (Some (apply_patch p u),
                w'\<lparr>cjpol_users :=
                     map (\<lambda>r. if u_id r = i then apply_patch p r else r) (cjpol_users w')\<rparr>)))"

section \<open>services/userService.ts: reading and writing users\<close>

definition getUserById :: "string \<Rightarrow> world \<Rightarrow> (error + User) \<times> world" where
  "getUserById i w =
     (case select_single (\<lambda>u. u_id u = i) w of
        (None, w') \<Rightarrow> (Inl (NotFoundError (''User with ID '' @ i @ '' not found'')), w')
      | (Some u, w') \<Rightarrow> (Inr u, w'))"

definition getUserByEmail :: "string \<Rightarrow> world \<Rightarrow> User option \<times> world" where
  "getUserByEmail e w = select_single (\<lambda>u. u_email u = e) w"

definition getUserByWordPressId :: "string \<Rightarrow> world \<Rightarrow> User option \<times> world" where
  "getUserByWordPressId wid w = select_single (\<lambda>u. u_wordpress_id u = Some wid) w"

definition updateUser :: "string \<Rightarrow> UserPatch \<Rightarrow> world \<Rightarrow> (error + User) \<times> world" where
  "updateUser i userData w =
     (case getUserById i w of
        (Inl e, w1) \<Rightarrow> (Inl e, w1)
      | (Inr _, w1) \<Rightarrow>
          (case update_single i (userData\<lparr>p_updated_at := Some (now_iso w1)\<rparr>) w1 of
             (None, w2) \<Rightarrow> (Inl (InternalServerError ''Failed to update user''), w2)
           | (Some u, w2) \<Rightarrow> (Inr u, w2)))"

section \<open>Numbers\<close>

text \<open>
  A \<open>number\<close> of the program is a double. The numbers met here hold integers, and a
  double that holds an integer is modelled by that integer. Every integer up to
  \<open>2^53\<close> in absolute value is a double; beyond, a double has 53 significant bits, and
  an arithmetic result is rounded to the nearest double, to the even one of two
  equally near. \<open>roundToDouble\<close> is this rounding (results beyond the largest
  double, which the program would hold as \<open>Infinity\<close>, are outside the model), and
  \<open>number_minus\<close> is the operator \<open>-\<close> on two such numbers.
  \<open>isSafeInteger\<close> is \<open>Number.isSafeInteger\<close>.
\<close>

definition MAX_SAFE_INTEGER :: int where
  "MAX_SAFE_INTEGER = 9007199254740991"

definition isSafeInteger :: "int \<Rightarrow> bool" where
  "isSafeInteger n = (- MAX_SAFE_INTEGER \<le> n \<and> n \<le> MAX_SAFE_INTEGER)"

fun bitLength :: "nat \<Rightarrow> nat" where
  "bitLength n = (if n = 0 then 0 else Suc (bitLength (n div 2)))"

declare bitLength.simps [simp del]

definition roundToDouble :: "int \<Rightarrow> int" where
  "roundToDouble n =
     (if \<bar>n\<bar> \<le> 9007199254740992 then n
      else
        (let a = nat \<bar>n\<bar>;
             k = bitLength a - 53;
             q = a div 2 ^ k;
             r = a mod 2 ^ k;
             half = 2 ^ (k - 1);
             q' = (if half < r \<or> (r = half \<and> odd q) then q + 1 else q)
         in sgn n * int (q' * 2 ^ k)))"

definition number_minus :: "int \<Rightarrow> int \<Rightarrow> int" where
  "number_minus a b = roundToDouble (a - b)"

section \<open>services/userService.ts: consumeCredits\<close>

text \<open>
  The whole body is inside \<open>try\<close>, and the \<open>catch\<close> returns \<open>false\<close>: an error of
  \<open>getUserById\<close> or \<open>updateUser\<close> becomes the result \<open>false\<close>. The result type keeps
  the error side, so that what the function never does can be stated.
\<close>

definition consumeCredits :: "string \<Rightarrow> int \<Rightarrow> world \<Rightarrow> (error + bool) \<times> world" where
  "consumeCredits userId amount w =
     (case getUserById userId w of
        (Inl e, w1) \<Rightarrow> (Inr False, w1)
      | (Inr user, w1) \<Rightarrow>
          if u_credits user < amount then (Inr False, w1)
          else
            (case updateUser userId
                    (no_patch\<lparr>p_credits := Some (number_minus (u_credits user) amount)\<rparr>) w1 of
               (Inl e, w2) \<Rightarrow> (Inr False, w2)
             | (Inr _, w2) \<Rightarrow> (Inr True, w2)))"

text \<open>The stored balance of a user: the credits of the one row with that id.\<close>

definition balance :: "world \<Rightarrow> string \<Rightarrow> int option" where
  "balance w i = map_option u_credits (single (filter (\<lambda>u. u_id u = i) (cjpol_users w)))"


section \<open>Configuration (config/env.ts, config/credits.ts, config/roles.ts)\<close>

text \<open>
  The variables of \<open>process.env\<close> that these modules read. A string variable may be
  unset (\<open>None\<close>). The two numeric constants are given as the numbers that
  \<open>parseInt(process.env.X || default, 10)\<close> produced.
\<close>

record process_env =
  env_NODE_ENV :: "string option"
  env_DEV_MODE_EMAIL :: "string option"
  env_DEV_MODE_PASSWORD :: "string option"
  env_DEV_MODE_USER_ID :: "string option"
  env_DEV_MODE_USER_NAME :: "string option"
  env_JWT_SECRET :: "string option"
  DEV_MODE_CREDITS :: int
  JWT_EXPIRATION :: int

text \<open>\<open>process.env.X || d\<close>: an unset or empty variable gives the default.\<close>

definition env_or :: "string option \<Rightarrow> string \<Rightarrow> string" where
  "env_or v d = (case v of None \<Rightarrow> d | Some s \<Rightarrow> if s = [] then d else s)"

definition NODE_ENV :: "process_env \<Rightarrow> string" where
  "NODE_ENV e = env_or (env_NODE_ENV e) ''production''"

definition IS_PRODUCTION :: "process_env \<Rightarrow> bool" where
  "IS_PRODUCTION e = (NODE_ENV e = ''production'')"

definition IS_DEVELOPMENT :: "process_env \<Rightarrow> bool" where
  "IS_DEVELOPMENT e = (NODE_ENV e = ''development'')"

definition DEV_MODE_EMAIL :: "process_env \<Rightarrow> string" where
  "DEV_MODE_EMAIL e = env_or (env_DEV_MODE_EMAIL e) ''dev@example.com''"

definition DEV_MODE_PASSWORD :: "process_env \<Rightarrow> string" where
  "DEV_MODE_PASSWORD e = env_or (env_DEV_MODE_PASSWORD e) ''devpassword''"

definition DEV_MODE_USER_ID :: "process_env \<Rightarrow> string" where
  "DEV_MODE_USER_ID e = env_or (env_DEV_MODE_USER_ID e) ''dev-user-id''"

definition DEV_MODE_USER_NAME :: "process_env \<Rightarrow> string" where
  "DEV_MODE_USER_NAME e = env_or (env_DEV_MODE_USER_NAME e) ''Development User''"

definition JWT_SECRET :: "process_env \<Rightarrow> string" where
  "JWT_SECRET e = env_or (env_JWT_SECRET e) ''default_jwt_secret_dev_only''"

definition DEFAULT_CREDITS_NEW_USER :: int where "DEFAULT_CREDITS_NEW_USER = 5"

definition MEMBERSHIP_CREDITS_FREE :: int where "MEMBERSHIP_CREDITS_FREE = 5"
definition MEMBERSHIP_CREDITS_BASIC :: int where "MEMBERSHIP_CREDITS_BASIC = 10"
definition MEMBERSHIP_CREDITS_COMPLETE :: int where "MEMBERSHIP_CREDITS_COMPLETE = 20"
definition MEMBERSHIP_CREDITS_DEVELOPER :: int where "MEMBERSHIP_CREDITS_DEVELOPER = 500"

definition MEMBERSHIP_LEVELS_FREE :: int where "MEMBERSHIP_LEVELS_FREE = 0"
definition MEMBERSHIP_LEVELS_BASIC :: int where "MEMBERSHIP_LEVELS_BASIC = 1"
definition MEMBERSHIP_LEVELS_COMPLETE :: int where "MEMBERSHIP_LEVELS_COMPLETE = 2"
definition MEMBERSHIP_LEVELS_DEVELOPER :: int where "MEMBERSHIP_LEVELS_DEVELOPER = 999"

definition MEMBERSHIP_NAMES_FREE :: string where "MEMBERSHIP_NAMES_FREE = ''free''"
definition MEMBERSHIP_NAMES_BASIC :: string where "MEMBERSHIP_NAMES_BASIC = ''basic''"
definition MEMBERSHIP_NAMES_COMPLETE :: string where "MEMBERSHIP_NAMES_COMPLETE = ''complete''"
definition MEMBERSHIP_NAMES_DEVELOPER :: string where "MEMBERSHIP_NAMES_DEVELOPER = ''developer''"

definition USER_ROLES_ADMIN :: string where "USER_ROLES_ADMIN = ''admin''"
definition USER_ROLES_USER :: string where "USER_ROLES_USER = ''user''"
definition WP_ROLE_MAPPING_ADMIN :: string where "WP_ROLE_MAPPING_ADMIN = ''administrator''"

section \<open>The external identity (utils/wordpressAuth.ts)\<close>

text \<open>
  \<open>WordPressUser\<close> with its embedded \<open>pmpro_membership\<close>, and \<open>WordPressMembership\<close>.
  The payment amounts are numbers that this code only passes on.
\<close>

record PmproMembership =
  pm_id :: string
  pm_name :: string
  pm_level :: string
  pm_initial_payment :: rat
  pm_billing_amount :: rat
  pm_cycle_number :: string
  pm_cycle_period :: string
  pm_expiration :: "string option"

record WordPressUser =
  wp_id :: string
  wp_email :: string
  wp_name :: string
  wp_roles :: "string list"
  wp_avatar_urls :: "(string \<times> string) list option"
  wp_pmpro_membership :: "PmproMembership option"

text \<open>In \<open>m_cycle_number\<close> the inner \<open>None\<close> is \<open>NaN\<close>, which \<open>parseInt\<close> may return.\<close>

record WordPressMembership =
  m_id :: int
  m_name :: string
  m_description :: "string option"
  m_confirmation :: "string option"
  m_initial_payment :: "rat option"
  m_billing_amount :: "rat option"
  m_cycle_number :: "int option option"
  m_cycle_period :: "string option"
  m_expiration_number :: "int option"
  m_expiration_period :: "string option"
  m_allow_signups :: "bool option"

subsection \<open>\<open>parseInt(s, 10)\<close>\<close>

text \<open>
  Leading white space is skipped, a sign is read, then the longest run of decimal digits;
  no digit gives \<open>NaN\<close>, here \<open>None\<close>; the value of the digits is rounded to a
  double. A character of the model is a code unit below 256, and the white space among
  these is tab, line feed, vertical tab, form feed, carriage return, space and the
  no-break space (160); the white space characters with larger codes do not occur in
  the model's strings.
\<close>

definition isWhiteSpace :: "char \<Rightarrow> bool" where
  "isWhiteSpace c = (of_char c \<in> {9, 10, 11, 12, 13, 32, 160 :: nat})"

definition isDigit :: "char \<Rightarrow> bool" where
  "isDigit c = (48 \<le> (of_char c :: nat) \<and> (of_char c :: nat) \<le> 57)"

definition digitValue :: "char \<Rightarrow> int" where
  "digitValue c = int (of_char c) - 48"

definition parseInt10 :: "string \<Rightarrow> int option" where
  "parseInt10 s =
     (let S = dropWhile isWhiteSpace s;
          sgn = (case S of c # _ \<Rightarrow> if c = CHR ''-'' then - 1 else 1 | [] \<Rightarrow> (1::int));
          S1 = (case S of c # cs \<Rightarrow> if c = CHR ''-'' \<or> c = CHR ''+'' then cs else S | [] \<Rightarrow> S);
          Z = takeWhile isDigit S1
      in if Z = [] then None
         else Some (roundToDouble (sgn * foldl (\<lambda>a c. 10 * a + digitValue c) 0 Z)))"

subsection \<open>getMembershipLevel\<close>

definition getMembershipLevel :: "WordPressUser \<Rightarrow> WordPressMembership" where
  "getMembershipLevel wpUser =
     (case wp_pmpro_membership wpUser of
        Some membership \<Rightarrow>
          (let membershipId = parseInt10 (pm_level membership);
               mappedId =
                 (if membershipId = Some MEMBERSHIP_LEVELS_COMPLETE then MEMBERSHIP_LEVELS_COMPLETE
                  else if membershipId = Some MEMBERSHIP_LEVELS_BASIC then MEMBERSHIP_LEVELS_BASIC
                  else MEMBERSHIP_LEVELS_FREE);
               mappedName =
                 (if membershipId = Some MEMBERSHIP_LEVELS_COMPLETE then MEMBERSHIP_NAMES_COMPLETE
                  else if membershipId = Some MEMBERSHIP_LEVELS_BASIC then MEMBERSHIP_NAMES_BASIC
                  else MEMBERSHIP_NAMES_FREE)
           in \<lparr> m_id = mappedId, m_name = mappedName, m_description = Some [],
                m_confirmation = None,
                m_initial_payment = Some (pm_initial_payment membership),
                m_billing_amount = Some (pm_billing_amount membership),
                m_cycle_number = Some (parseInt10 (pm_cycle_number membership)),
                m_cycle_period = Some (pm_cycle_period membership),
                m_expiration_number = Some 0, m_expiration_period = Some [],
                m_allow_signups = Some True \<rparr>)
      | None \<Rightarrow>
          \<lparr> m_id = MEMBERSHIP_LEVELS_FREE, m_name = MEMBERSHIP_NAMES_FREE, m_description = None,
            m_confirmation = None, m_initial_payment = None, m_billing_amount = None,
            m_cycle_number = None, m_cycle_period = None, m_expiration_number = None,
            m_expiration_period = None, m_allow_signups = None \<rparr>)"

subsection \<open>The two verification paths\<close>

record request =
  req_ip :: "string option"

definition startsWith :: "string \<Rightarrow> string \<Rightarrow> bool" where
  "startsWith s p = (take (length p) s = p)"

text \<open>The identity that the development path returns, with its mock membership.\<close>

definition devModeUser :: "process_env \<Rightarrow> WordPressUser" where
  "devModeUser e =
     \<lparr> wp_id = DEV_MODE_USER_ID e, wp_email = DEV_MODE_EMAIL e, wp_name = DEV_MODE_USER_NAME e,
       wp_roles = [''administrator''], wp_avatar_urls = Some [],
       wp_pmpro_membership = Some
         \<lparr> pm_id = ''999'', pm_name = ''Developer Plan'', pm_level = ''999'',
           pm_initial_payment = 0, pm_billing_amount = 0, pm_cycle_number = ''0'',
           pm_cycle_period = ''month'', pm_expiration = None \<rparr> \<rparr>"

text \<open>
  \<open>req_local\<close> is the test on the caller's address: it is made only when a request with
  an address is given. The wait of one second before a mismatch is reported is not
  modelled; the error thrown inside \<open>try\<close> is replaced by the one of the \<open>catch\<close>.
\<close>

definition req_local :: "request option \<Rightarrow> bool" where
  "req_local req =
     (case req of
        None \<Rightarrow> True
      | Some r \<Rightarrow>
          (case req_ip r of
             None \<Rightarrow> True
           | Some ip \<Rightarrow>
               if ip = [] then True
               else (ip = ''127.0.0.1'' \<or> ip = ''::1'')
                  \<or> (startsWith ip ''10.'' \<or> startsWith ip ''172.16.'' \<or> startsWith ip ''192.168.'')))"

definition verifyWordPressCredentialsDevMode ::
  "process_env \<Rightarrow> string \<Rightarrow> string \<Rightarrow> request option \<Rightarrow> error + WordPressUser" where
  "verifyWordPressCredentialsDevMode e username password req =
     (if username = [] \<or> password = [] then
        Inl (BadRequestError ''Email and password are required'')
      else if \<not> IS_DEVELOPMENT e then
        Inl (UnauthorizedError
              ''Dev mode authentication is only available in development environment'')
      else if DEV_MODE_EMAIL e = [] \<or> DEV_MODE_PASSWORD e = [] \<or> length (DEV_MODE_PASSWORD e) < 12 then
        Inl (UnauthorizedError ''Dev mode authentication is not properly configured'')
      else if \<not> req_local req then
        Inl (UnauthorizedError ''Dev mode authentication is only available from local networks'')
      else if username = DEV_MODE_EMAIL e \<and> password = DEV_MODE_PASSWORD e then
        Inr (devModeUser e)
      else Inl (UnauthorizedError ''Authentication failed in dev mode''))"

text \<open>
  The remote check talks to the WordPress site. What the site answers is the parameter
  \<open>wordpress\<close>: the identity built from the profile, or the message of the
  \<open>UnauthorizedError\<close> that the function ends with.
\<close>

type_synonym wordpress_site = "string \<Rightarrow> string \<Rightarrow> string + WordPressUser"

definition verifyWordPressCredentialsWithJWT ::
  "wordpress_site \<Rightarrow> string \<Rightarrow> string \<Rightarrow> error + WordPressUser" where
  "verifyWordPressCredentialsWithJWT wordpress username password =
     (if username = [] \<or> password = [] then
        Inl (BadRequestError ''Email and password are required'')
      else (case wordpress username password of
              Inr wpUser \<Rightarrow> Inr wpUser
            | Inl msg \<Rightarrow> Inl (UnauthorizedError msg)))"

definition verifyWordPressCredentials ::
  "process_env \<Rightarrow> wordpress_site \<Rightarrow> string \<Rightarrow> string \<Rightarrow> request option
     \<Rightarrow> error + WordPressUser" where
  "verifyWordPressCredentials e wordpress username password req =
     (if username = [] \<or> password = [] then
        Inl (BadRequestError ''Email and password are required'')
      else
        (case verifyWordPressCredentialsWithJWT wordpress username password of
           Inr wpUser \<Rightarrow> Inr wpUser
         | Inl _ \<Rightarrow>
             (case (if IS_DEVELOPMENT e
                    then verifyWordPressCredentialsDevMode e username password req
                    else Inl (UnauthorizedError [])) of
                Inr wpUser \<Rightarrow> Inr wpUser
              | Inl _ \<Rightarrow>
                  Inl (UnauthorizedError
                        ''Authentication failed. Please check server logs for details.''))))"


section \<open>services/userService.ts: reconciliation\<close>

text \<open>The argument of \<open>createUser\<close>; an optional key is an \<open>option\<close>.\<close>

record CreateUserData =
  c_email :: string
  c_name :: string
  c_wordpress_id :: "string option"
  c_picture :: "string option"
  c_role :: "string option"
  c_active :: "bool option"
  c_credits :: "int option"
  c_subscription :: "string option"
  c_wordpress_membership_id :: "int option"
  c_wordpress_membership_name :: "string option"
  c_wordpress_membership_updated :: "string option"

text \<open>\<open>x || null\<close> on a string and on a number: an empty string and 0 are falsy.\<close>

definition truthy_string :: "string option \<Rightarrow> string option" where
  "truthy_string v = (case v of None \<Rightarrow> None | Some s \<Rightarrow> if s = [] then None else Some s)"

definition truthy_number :: "int option \<Rightarrow> int option" where
  "truthy_number v = (case v of None \<Rightarrow> None | Some n \<Rightarrow> if n = 0 then None else Some n)"

definition createUser :: "CreateUserData \<Rightarrow> world \<Rightarrow> (error + User) \<times> world" where
  "createUser userData w =
     (case getUserByEmail (c_email userData) w of
        (Some _, w1) \<Rightarrow>
          (Inl (ConflictError (''User with email '' @ c_email userData @ '' already exists'')), w1)
      | (None, w1) \<Rightarrow>
          (let newUserId = next_uuid w1; now = now_iso w1 in
           case insert_single
                  \<lparr> u_id = newUserId,
                    u_email = c_email userData,
                    u_name = c_name userData,
                    u_role = (case truthy_string (c_role userData) of
                                None \<Rightarrow> USER_ROLES_USER | Some r \<Rightarrow> r),
                    u_credits = (case c_credits userData of None \<Rightarrow> 0 | Some c \<Rightarrow> c),
                    u_subscription = (case truthy_string (c_subscription userData) of
                                        None \<Rightarrow> MEMBERSHIP_NAMES_FREE | Some x \<Rightarrow> x),
                    u_active = (case c_active userData of None \<Rightarrow> True | Some a \<Rightarrow> a),
                    u_wordpress_id = truthy_string (c_wordpress_id userData),
                    u_picture = truthy_string (c_picture userData),
                    u_wordpress_membership_id = truthy_number (c_wordpress_membership_id userData),
                    u_wordpress_membership_name =
                      truthy_string (c_wordpress_membership_name userData),
                    u_wordpress_membership_updated =
                      truthy_string (c_wordpress_membership_updated userData),
                    u_created_at = now,
                    u_updated_at = now \<rparr> w1 of
             (None, w2) \<Rightarrow> (Inl (InternalServerError ''Failed to create user''), w2)
           | (Some u, w2) \<Rightarrow> (Inr u, w2)))"

definition mapMembershipToCredits :: "WordPressMembership \<Rightarrow> int" where
  "mapMembershipToCredits membershipLevel =
     (if m_id membershipLevel = MEMBERSHIP_LEVELS_DEVELOPER then MEMBERSHIP_CREDITS_DEVELOPER
      else if m_id membershipLevel = MEMBERSHIP_LEVELS_COMPLETE then MEMBERSHIP_CREDITS_COMPLETE
      else if m_id membershipLevel = MEMBERSHIP_LEVELS_BASIC then MEMBERSHIP_CREDITS_BASIC
      else MEMBERSHIP_CREDITS_FREE)"

definition determineUserRole :: "string list \<Rightarrow> string" where
  "determineUserRole wpRoles =
     (if WP_ROLE_MAPPING_ADMIN \<in> set wpRoles then USER_ROLES_ADMIN else USER_ROLES_USER)"

text \<open>\<open>wpUser.avatar_urls?.['96']\<close>\<close>

definition avatar96 :: "WordPressUser \<Rightarrow> string option" where
  "avatar96 wpUser = (case wp_avatar_urls wpUser of None \<Rightarrow> None | Some urls \<Rightarrow> map_of urls ''96'')"

definition isDevModeUser :: "process_env \<Rightarrow> WordPressUser \<Rightarrow> bool" where
  "isDevModeUser e wpUser = (IS_DEVELOPMENT e \<and> wp_email wpUser = DEV_MODE_EMAIL e)"

definition assignedRole :: "process_env \<Rightarrow> WordPressUser \<Rightarrow> string" where
  "assignedRole e wpUser =
     (if isDevModeUser e wpUser then USER_ROLES_ADMIN else determineUserRole (wp_roles wpUser))"

text \<open>
  \<open>isDevModeUser\<close> and \<open>assignedRole\<close> are the two constants \<open>isDevModeUser\<close> and
  \<open>userRole\<close> that each of the three branches computes in the same way. In the third
  branch \<open>getMembershipLevel\<close> stands in a \<open>try\<close> whose \<open>catch\<close> sets default values
  (\<open>DEFAULT_CREDITS_NEW_USER\<close>, the free tier): nothing in \<open>getMembershipLevel\<close> or
  \<open>mapMembershipToCredits\<close> throws, so only the body of the \<open>try\<close> is here.
\<close>

definition getUserOrCreateFromWordPress ::
  "process_env \<Rightarrow> WordPressUser \<Rightarrow> world \<Rightarrow> (error + User) \<times> world" where
  "getUserOrCreateFromWordPress e wpUser w =
     (case getUserByWordPressId (wp_id wpUser) w of
        (Some userByWordPressId, w1) \<Rightarrow>
          (let userRole = assignedRole e wpUser in
           if u_name userByWordPressId \<noteq> wp_name wpUser
              \<or> u_email userByWordPressId \<noteq> wp_email wpUser
              \<or> u_role userByWordPressId \<noteq> userRole
              \<or> (isDevModeUser e wpUser \<and> u_credits userByWordPressId \<noteq> DEV_MODE_CREDITS e)
           then
             updateUser (u_id userByWordPressId)
               (no_patch\<lparr>
                  p_name := Some (wp_name wpUser),
                  p_email := Some (wp_email wpUser),
                  p_role := Some userRole,
                  p_picture := Some (case truthy_string (avatar96 wpUser) of
                                       Some a \<Rightarrow> Some a | None \<Rightarrow> u_picture userByWordPressId),
                  p_credits := (if isDevModeUser e wpUser then Some (DEV_MODE_CREDITS e) else None),
                  p_subscription :=
                    (if isDevModeUser e wpUser then Some MEMBERSHIP_NAMES_DEVELOPER else None)\<rparr>)
               w1
           else (Inr userByWordPressId, w1))
      | (None, w1) \<Rightarrow>
          (case getUserByEmail (wp_email wpUser) w1 of
             (Some userByEmail, w2) \<Rightarrow>
               (let userRole = assignedRole e wpUser in
                updateUser (u_id userByEmail)
                  (no_patch\<lparr>
                     p_wordpress_id := Some (Some (wp_id wpUser)),
                     p_name := Some (wp_name wpUser),
                     p_role := Some userRole,
                     p_picture := Some (case truthy_string (avatar96 wpUser) of
                                          Some a \<Rightarrow> Some a | None \<Rightarrow> u_picture userByEmail),
                     p_credits := (if isDevModeUser e wpUser then Some (DEV_MODE_CREDITS e) else None),
                     p_subscription :=
                       (if isDevModeUser e wpUser then Some MEMBERSHIP_NAMES_DEVELOPER else None)\<rparr>)
                  w2)
           | (None, w2) \<Rightarrow>
               (let userRole = assignedRole e wpUser;
                    membershipLevel = getMembershipLevel wpUser;
                    initialCredits =
                      (if isDevModeUser e wpUser then DEV_MODE_CREDITS e
                       else mapMembershipToCredits membershipLevel);
                    initialSubscription =
                      (if isDevModeUser e wpUser then MEMBERSHIP_NAMES_DEVELOPER
                       else if m_id membershipLevel = MEMBERSHIP_LEVELS_COMPLETE
                         then MEMBERSHIP_NAMES_COMPLETE
                       else if m_id membershipLevel = MEMBERSHIP_LEVELS_BASIC
                         then MEMBERSHIP_NAMES_BASIC
                       else MEMBERSHIP_NAMES_FREE)
                in createUser
                     \<lparr> c_email = wp_email wpUser,
                       c_name = wp_name wpUser,
                       c_wordpress_id = Some (wp_id wpUser),
                       c_picture = avatar96 wpUser,
                       c_role = Some userRole,
                       c_active = None,
                       c_credits = Some initialCredits,
                       c_subscription = Some initialSubscription,
                       c_wordpress_membership_id = Some (m_id membershipLevel),
                       c_wordpress_membership_name = Some initialSubscription,
                       c_wordpress_membership_updated = Some (now_iso w2) \<rparr>
                     w2)))"

definition updateUserMembership ::
  "string \<Rightarrow> WordPressMembership \<Rightarrow> world \<Rightarrow> (error + User) \<times> world" where
  "updateUserMembership userId membershipLevel w =
     (let credits = mapMembershipToCredits membershipLevel;
          subscription =
            (if m_id membershipLevel = MEMBERSHIP_LEVELS_COMPLETE then MEMBERSHIP_NAMES_COMPLETE
             else if m_id membershipLevel = MEMBERSHIP_LEVELS_BASIC then MEMBERSHIP_NAMES_BASIC
             else if m_id membershipLevel = MEMBERSHIP_LEVELS_DEVELOPER
               then MEMBERSHIP_NAMES_DEVELOPER
             else MEMBERSHIP_NAMES_FREE)
      in updateUser userId
           (no_patch\<lparr>
              p_credits := Some credits,
              p_subscription := Some subscription,
              p_wordpress_membership_id := Some (Some (m_id membershipLevel)),
              p_wordpress_membership_name := Some (Some subscription),
              p_wordpress_membership_updated := Some (Some (now_iso w))\<rparr>)
           w)"

section \<open>utils/jwt.ts\<close>

text \<open>
  The module calls \<open>jwt.sign\<close> and \<open>jwt.verify\<close> of the library \<open>jsonwebtoken\<close>. The
  library is modelled symbolically: a token is either a string that does not parse, or
  the claims together with a signature, and a signature is the term \<open>HS256 key claims\<close>,
  so that it is valid for a key exactly when it was made with that key over those claims.
  \<open>sign\<close> stamps \<open>iat\<close> with the clock and \<open>exp = iat + expiresIn\<close>; \<open>verify\<close> checks
  the shape, then the signature, then \<open>exp\<close> against the clock. In the library
  \<open>TokenExpiredError\<close> and \<open>NotBeforeError\<close> are subclasses of \<open>JsonWebTokenError\<close>.
\<close>

record JwtUserPayload =
  jwt_id :: string
  jwt_email :: string
  jwt_role :: string

record JwtClaims = JwtUserPayload +
  jwt_iat :: int
  jwt_exp :: int

datatype signature = HS256 string JwtClaims

datatype token = Malformed string | Signed JwtClaims signature

datatype jwt_library_error = JsonWebTokenError | TokenExpiredError | NotBeforeError

definition jwt_sign :: "JwtUserPayload \<Rightarrow> string \<Rightarrow> int \<Rightarrow> int \<Rightarrow> token" where
  "jwt_sign payload secret expiresIn clock =
     (let claims = \<lparr> jwt_id = jwt_id payload, jwt_email = jwt_email payload,
                      jwt_role = jwt_role payload, jwt_iat = clock,
                      jwt_exp = clock + expiresIn \<rparr>
      in Signed claims (HS256 secret claims))"

definition jwt_verify :: "token \<Rightarrow> string \<Rightarrow> int \<Rightarrow> jwt_library_error + JwtClaims" where
  "jwt_verify tok secret clock =
     (case tok of
        Malformed _ \<Rightarrow> Inl JsonWebTokenError
      | Signed claims sg \<Rightarrow>
          if sg \<noteq> HS256 secret claims then Inl JsonWebTokenError
          else if jwt_exp claims \<le> clock then Inl TokenExpiredError
          else Inr claims)"

definition instanceof_TokenExpiredError :: "jwt_library_error \<Rightarrow> bool" where
  "instanceof_TokenExpiredError err = (err = TokenExpiredError)"

definition instanceof_JsonWebTokenError :: "jwt_library_error \<Rightarrow> bool" where
  "instanceof_JsonWebTokenError err = True"

definition generateToken :: "process_env \<Rightarrow> int \<Rightarrow> JwtUserPayload \<Rightarrow> token" where
  "generateToken e clock user = jwt_sign user (JWT_SECRET e) (JWT_EXPIRATION e) clock"

definition verifyToken :: "process_env \<Rightarrow> int \<Rightarrow> token \<Rightarrow> error + JwtClaims" where
  "verifyToken e clock tok =
     (case jwt_verify tok (JWT_SECRET e) clock of
        Inr decoded \<Rightarrow> Inr decoded
      | Inl err \<Rightarrow>
          if instanceof_TokenExpiredError err then Inl (UnauthorizedError ''Token expired'')
          else if instanceof_JsonWebTokenError err then Inl (UnauthorizedError ''Invalid token'')
          else Inl (UnauthorizedError ''Token verification failed''))"

section \<open>services/authService.ts: authenticateWithWordPress\<close>

text \<open>
  The \<open>catch\<close> at the end rethrows an \<open>UnauthorizedError\<close> or a \<open>BadRequestError\<close> and
  turns every other error into \<open>UnauthorizedError('Authentication failed')\<close>.
\<close>

definition rethrow :: "error \<Rightarrow> error" where
  "rethrow err =
     (case err of
        UnauthorizedError m \<Rightarrow> UnauthorizedError m
      | BadRequestError m \<Rightarrow> BadRequestError m
      | _ \<Rightarrow> UnauthorizedError ''Authentication failed'')"

definition authenticateWithWordPress ::
  "process_env \<Rightarrow> wordpress_site \<Rightarrow> string \<Rightarrow> string \<Rightarrow> request option \<Rightarrow> world
     \<Rightarrow> (error + User \<times> token) \<times> world" where
  "authenticateWithWordPress e wordpress username password req w =
     (if username = [] \<or> password = [] then
        (Inl (rethrow (BadRequestError ''Email and password are required'')), w)
      else
        (case verifyWordPressCredentials e wordpress username password req of
           Inl err \<Rightarrow> (Inl (rethrow err), w)
         | Inr wpUser \<Rightarrow>
             (case getUserOrCreateFromWordPress e wpUser w of
                (Inl err, w1) \<Rightarrow> (Inl (rethrow err), w1)
              | (Inr user, w1) \<Rightarrow>
                  if \<not> u_active user then
                    (Inl (rethrow (UnauthorizedError ''User account is inactive'')), w1)
                  else
                    (let membershipLevel = getMembershipLevel wpUser in
                     case updateUserMembership (u_id user) membershipLevel w1 of
                       (Inl err, w2) \<Rightarrow> (Inl (rethrow err), w2)
                     | (Inr _, w2) \<Rightarrow>
                         (let payload = \<lparr> jwt_id = u_id user, jwt_email = u_email user,
                                           jwt_role = u_role user \<rparr>;
                              accessToken = generateToken e (now_epoch w2) payload
                          in (Inr (user, accessToken), w2))))))"


section \<open>Example data\<close>

definition stored_user :: "string \<Rightarrow> string \<Rightarrow> string \<Rightarrow> int \<Rightarrow> string option \<Rightarrow> User" where
  "stored_user i mail rl c wid =
     \<lparr> u_id = i, u_email = mail, u_name = ''Ana Souza'', u_role = rl, u_credits = c,
       u_subscription = ''complete'', u_active = True, u_wordpress_id = wid, u_picture = None,
       u_wordpress_membership_id = Some 2, u_wordpress_membership_name = Some ''complete'',
       u_wordpress_membership_updated = Some ''2025-05-01T08:00:00.000Z'',
       u_created_at = ''2025-05-01T08:00:00.000Z'', u_updated_at = ''2025-05-01T08:00:00.000Z'' \<rparr>"

definition store :: "User list \<Rightarrow> bool list \<Rightarrow> world" where
  "store table fs =
     \<lparr> cjpol_users = table, faults = fs, now_iso = ''2025-06-01T12:00:00.000Z'',
       now_epoch = 1748779200, next_uuid = ''0b0e7a3c-5a51-4c57-9d3e-2f6f0c1d9a10'' \<rparr>"

definition identity :: "string \<Rightarrow> string \<Rightarrow> string list \<Rightarrow> string option \<Rightarrow> WordPressUser" where
  "identity i mail rls lvl =
     \<lparr> wp_id = i, wp_email = mail, wp_name = ''Ana Souza'', wp_roles = rls,
       wp_avatar_urls = None,
       wp_pmpro_membership =
         map_option (\<lambda>l. \<lparr> pm_id = l, pm_name = ''Plano'', pm_level = l, pm_initial_payment = 0,
                           pm_billing_amount = 0, pm_cycle_number = ''1'',
                           pm_cycle_period = ''Month'', pm_expiration = None \<rparr>) lvl \<rparr>"

definition accepting_site :: "WordPressUser \<Rightarrow> wordpress_site" where
  "accepting_site wpUser = (\<lambda>username password. Inr wpUser)"

definition rejecting_site :: wordpress_site where
  "rejecting_site = (\<lambda>username password. Inl ''Invalid credentials'')"

definition environment :: "string option \<Rightarrow> process_env" where
  "environment mode =
     \<lparr> env_NODE_ENV = mode, env_DEV_MODE_EMAIL = Some ''dev@cjpol.test'',
       env_DEV_MODE_PASSWORD = Some ''correct horse battery'', env_DEV_MODE_USER_ID = None,
       env_DEV_MODE_USER_NAME = None, env_JWT_SECRET = Some ''s3cr3t-signing-key'',
       DEV_MODE_CREDITS = 1000, JWT_EXPIRATION = 86400 \<rparr>"

section \<open>Unfolding rules\<close>

lemmas service_defs = getUserOrCreateFromWordPress_def getUserByWordPressId_def
  getUserByEmail_def getUserById_def updateUser_def createUser_def updateUserMembership_def
  select_single_def insert_single_def update_single_def db_request_def
  apply_patch_def set_col_def no_patch_def truthy_string_def truthy_number_def avatar96_def
  assignedRole_def isDevModeUser_def determineUserRole_def

lemmas config_defs = IS_DEVELOPMENT_def IS_PRODUCTION_def NODE_ENV_def env_or_def
  DEV_MODE_EMAIL_def DEV_MODE_PASSWORD_def DEV_MODE_USER_ID_def DEV_MODE_USER_NAME_def
  JWT_SECRET_def USER_ROLES_ADMIN_def USER_ROLES_USER_def WP_ROLE_MAPPING_ADMIN_def
  MEMBERSHIP_NAMES_FREE_def MEMBERSHIP_NAMES_BASIC_def MEMBERSHIP_NAMES_COMPLETE_def
  MEMBERSHIP_NAMES_DEVELOPER_def MEMBERSHIP_CREDITS_FREE_def MEMBERSHIP_CREDITS_BASIC_def
  MEMBERSHIP_CREDITS_COMPLETE_def MEMBERSHIP_CREDITS_DEVELOPER_def
  MEMBERSHIP_LEVELS_FREE_def MEMBERSHIP_LEVELS_BASIC_def MEMBERSHIP_LEVELS_COMPLETE_def
  MEMBERSHIP_LEVELS_DEVELOPER_def

lemmas example_defs = store_def stored_user_def identity_def environment_def
  accepting_site_def rejecting_site_def

lemmas parseInt_defs = parseInt10_def isWhiteSpace_def isDigit_def digitValue_def
  roundToDouble_def

section \<open>Numbers: where the subtraction is exact\<close>

lemma number_minus_exact:
  "\<bar>a - b\<bar> \<le> 9007199254740992 \<Longrightarrow> number_minus a b = a - b"
  by (simp add: number_minus_def roundToDouble_def)

lemma number_minus_safe:
  "isSafeInteger (a - b) \<Longrightarrow> number_minus a b = a - b"
  by (rule number_minus_exact) (auto simp: isSafeInteger_def MAX_SAFE_INTEGER_def abs_le_iff)

lemma bitLength_0: "bitLength 0 = 0"
  by (simp add: bitLength.simps)

lemma bitLength_pos: "0 < n \<Longrightarrow> bitLength n = Suc (bitLength (n div 2))"
  by (subst bitLength.simps) simp

text \<open>
  Beyond the safe integers the subtraction rounds: \<open>2^53 + 1\<close> is no double, so
  \<open>2^53 - (-1)\<close> is \<open>2^53\<close>; and \<open>5 - (-2^60)\<close> is \<open>2^60\<close>.
\<close>

lemma number_minus_rounds:
  "number_minus 9007199254740992 (- 1) = 9007199254740992"
  "number_minus 9007199254740994 1 = 9007199254740992"
  "number_minus 5 (- 1152921504606846976) = 1152921504606846976"
  by (simp_all add: number_minus_def roundToDouble_def Let_def bitLength_0 bitLength_pos)

section \<open>The store when no request fails\<close>

lemma db_request_ok: "faults w = [] \<Longrightarrow> db_request w = (False, w)"
  by (simp add: db_request_def)

lemma select_single_ok:
  "faults w = [] \<Longrightarrow> select_single p w = (single (filter p (cjpol_users w)), w)"
  by (simp add: select_single_def db_request_ok)

lemma u_id_apply_patch: "u_id (apply_patch p u) = u_id u"
  by (simp add: apply_patch_def)

lemma u_credits_apply_patch:
  "u_credits (apply_patch p u) = set_col (p_credits p) (u_credits u)"
  by (simp add: apply_patch_def)

lemma single_map: "single (map f xs) = map_option f (single xs)"
  by (cases xs rule: single.cases) simp_all

lemma filter_id_patched:
  "filter (\<lambda>u. u_id u = i) (map (\<lambda>r. if u_id r = i then apply_patch p r else r) xs)
     = map (apply_patch p) (filter (\<lambda>u. u_id u = i) xs)"
  by (induction xs) (simp_all add: u_id_apply_patch)

lemma getUserById_ok:
  "faults w = [] \<Longrightarrow> single (filter (\<lambda>u. u_id u = i) (cjpol_users w)) = Some u
     \<Longrightarrow> getUserById i w = (Inr u, w)"
  by (simp add: getUserById_def select_single_ok)

lemma updateUser_ok:
  "faults w = [] \<Longrightarrow> single (filter (\<lambda>u. u_id u = i) (cjpol_users w)) = Some u
     \<Longrightarrow> updateUser i p w =
          (Inr (apply_patch (p\<lparr>p_updated_at := Some (now_iso w)\<rparr>) u),
           w\<lparr>cjpol_users := map (\<lambda>r. if u_id r = i
                 then apply_patch (p\<lparr>p_updated_at := Some (now_iso w)\<rparr>) r else r) (cjpol_users w)\<rparr>)"
  by (simp add: updateUser_def getUserById_ok update_single_def db_request_ok)

section \<open>The store when a request fails\<close>

lemma select_single_rows: "cjpol_users (snd (select_single p w)) = cjpol_users w"
  by (simp add: select_single_def db_request_def split: list.splits bool.splits)

lemma getUserById_rows: "cjpol_users (snd (getUserById i w)) = cjpol_users w"
  using select_single_rows [of "\<lambda>u. u_id u = i" w]
  by (auto simp: getUserById_def split: prod.splits option.splits)

lemma getUserById_faults: "faults (snd (getUserById i w)) = tl (faults w)"
  by (auto simp: getUserById_def select_single_def db_request_def
      split: prod.splits option.splits list.splits bool.splits)

lemma getUserById_fault:
  "faults w = True # fs \<Longrightarrow> \<exists>e. getUserById i w = (Inl e, w\<lparr>faults := fs\<rparr>)"
  by (simp add: getUserById_def select_single_def db_request_def)

lemma update_single_fault:
  "faults w = True # fs \<Longrightarrow> update_single i p w = (None, w\<lparr>faults := fs\<rparr>)"
  by (simp add: update_single_def db_request_def)

lemma updateUser_fails_rows:
  "updateUser i p w = (Inl e, w') \<Longrightarrow> cjpol_users w' = cjpol_users w"
  using getUserById_rows [of i w]
  by (auto simp: updateUser_def update_single_def db_request_def
      split: prod.splits sum.splits option.splits list.splits bool.splits)

lemma updateUser_fault:
  assumes "True \<in> set (take 2 (faults w))"
  shows "\<exists>e. fst (updateUser i p w) = Inl e"
proof (cases "getUserById i w")
  case (Pair r w1)
  show ?thesis
  proof (cases r)
    case (Inl e)
    with Pair show ?thesis by (simp add: updateUser_def)
  next
    case (Inr u)
    have f1: "faults w1 = tl (faults w)"
      using getUserById_faults [of i w] Pair by simp
    obtain f fs where fs: "faults w = f # fs"
      using assms by (cases "faults w") auto
    have "f = False"
      using getUserById_fault [of w fs i] fs Pair Inr by (cases f) auto
    with assms fs obtain fs' where "fs = True # fs'"
      by (cases fs) (auto split: if_splits)
    with f1 fs have "faults w1 = True # fs'" by simp
    from update_single_fault [OF this] Pair Inr show ?thesis
      by (simp add: updateUser_def)
  qed
qed

lemma consumeCredits_total: "\<exists>b. fst (consumeCredits userId amount w) = Inr b"
  by (auto simp: consumeCredits_def split: prod.splits sum.splits)

section \<open>Credit ledger: consumeCredits\<close>

text \<open>
  C1. A user is stored with balance \<open>B \<ge> 0\<close>, a safe integer, the amount is at least 1
  and the store answers every request. If \<open>B < amount\<close> the call returns \<open>false\<close> and
  changes nothing; if \<open>amount \<le> B\<close> it returns \<open>true\<close> and the stored balance is
  \<open>B - amount\<close>. In both cases the balance afterwards is not negative.
\<close>

theorem consumeCredits_spec:
  assumes nofault: "faults w = []"
    and row: "single (filter (\<lambda>u. u_id u = userId) (cjpol_users w)) = Some u"
    and nonneg: "0 \<le> u_credits u"
    and safe: "isSafeInteger (u_credits u)"
    and amt: "1 \<le> amount"
  shows "(u_credits u < amount \<longrightarrow> consumeCredits userId amount w = (Inr False, w))
       \<and> (amount \<le> u_credits u \<longrightarrow>
            fst (consumeCredits userId amount w) = Inr True
          \<and> balance (snd (consumeCredits userId amount w)) userId = Some (u_credits u - amount))
       \<and> (\<exists>b. balance (snd (consumeCredits userId amount w)) userId = Some b \<and> 0 \<le> b)"
proof -
  have low: "consumeCredits userId amount w = (Inr False, w)" if "u_credits u < amount"
    using that by (simp add: consumeCredits_def getUserById_ok [OF nofault row])
  have bal0: "balance w userId = Some (u_credits u)"
    by (simp add: balance_def row)
  have high: "fst (consumeCredits userId amount w) = Inr True
     \<and> balance (snd (consumeCredits userId amount w)) userId = Some (u_credits u - amount)"
    if le: "amount \<le> u_credits u"
  proof -
    from le amt nonneg safe have "isSafeInteger (u_credits u - amount)"
      by (simp add: isSafeInteger_def MAX_SAFE_INTEGER_def)
    then have exact: "number_minus (u_credits u) amount = u_credits u - amount"
      by (rule number_minus_safe)
    from le show ?thesis
      by (simp add: consumeCredits_def getUserById_ok [OF nofault row]
          updateUser_ok [OF nofault row] balance_def filter_id_patched single_map row
          u_credits_apply_patch set_col_def no_patch_def exact)
  qed
  show ?thesis
  proof (cases "u_credits u < amount")
    case True
    with low bal0 nonneg show ?thesis by simp
  next
    case False
    with high show ?thesis by simp
  qed
qed

text \<open>
  The example of the specification: a user with balance 0 asks for 1 credit, gets
  \<open>false\<close> and keeps balance 0. A user with balance 5 who asks for 2 gets \<open>true\<close>
  and keeps 3.
\<close>

theorem consumeCredits_spec_witness:
  "consumeCredits ''u1'' 1 (store [stored_user ''u1'' ''ana@x.com'' ''user'' 0 None] [])
     = (Inr False, store [stored_user ''u1'' ''ana@x.com'' ''user'' 0 None] [])
   \<and> balance (snd (consumeCredits ''u1'' 1
        (store [stored_user ''u1'' ''ana@x.com'' ''user'' 0 None] []))) ''u1'' = Some 0
   \<and> fst (consumeCredits ''u1'' 2 (store [stored_user ''u1'' ''ana@x.com'' ''user'' 5 None] []))
     = Inr True
   \<and> balance (snd (consumeCredits ''u1'' 2
        (store [stored_user ''u1'' ''ana@x.com'' ''user'' 5 None] []))) ''u1'' = Some 3"
proof -
  let ?u = "stored_user ''u1'' ''ana@x.com'' ''user'' 0 None"
  let ?w = "store [?u] []"
  have h1: "faults ?w = []"
    by (simp add: store_def)
  have h2: "single (filter (\<lambda>u. u_id u = ''u1'') (cjpol_users ?w)) = Some ?u"
    by (simp add: store_def stored_user_def)
  have h3: "0 \<le> u_credits ?u"
    by (simp add: stored_user_def)
  have hs: "isSafeInteger (u_credits ?u)"
    by (simp add: stored_user_def isSafeInteger_def MAX_SAFE_INTEGER_def)
  have h4: "(1::int) \<le> 1"
    by simp
  have lt: "u_credits ?u < 1"
    by (simp add: stored_user_def)
  from consumeCredits_spec [OF h1 h2 h3 hs h4] lt
  have a: "consumeCredits ''u1'' 1 ?w = (Inr False, ?w)"
    by blast
  have b: "balance ?w ''u1'' = Some 0"
    by (simp add: balance_def store_def stored_user_def)
  let ?v = "stored_user ''u1'' ''ana@x.com'' ''user'' 5 None"
  let ?x = "store [?v] []"
  have k1: "faults ?x = []"
    by (simp add: store_def)
  have k2: "single (filter (\<lambda>u. u_id u = ''u1'') (cjpol_users ?x)) = Some ?v"
    by (simp add: store_def stored_user_def)
  have k3: "0 \<le> u_credits ?v"
    by (simp add: stored_user_def)
  have ks: "isSafeInteger (u_credits ?v)"
    by (simp add: stored_user_def isSafeInteger_def MAX_SAFE_INTEGER_def)
  have k4: "(1::int) \<le> 2"
    by simp
  have ge: "2 \<le> u_credits ?v" "u_credits ?v - 2 = 3"
    by (simp_all add: stored_user_def)
  from consumeCredits_spec [OF k1 k2 k3 ks k4] ge
  have c: "fst (consumeCredits ''u1'' 2 ?x) = Inr True
         \<and> balance (snd (consumeCredits ''u1'' 2 ?x)) ''u1'' = Some 3"
    by simp
  from a b c show ?thesis
    by simp
qed

text \<open>
  C10. A user is stored with balance \<open>B \<ge> 0\<close>, the amount is zero or negative, the
  store answers every request, and \<open>B\<close>, the amount and \<open>B - amount\<close> are safe integers.
  The amount is not checked: the call returns \<open>true\<close> and the stored balance is
  \<open>B - amount\<close>, which for a negative amount is more than \<open>B\<close>.
\<close>

theorem consumeCredits_nonpositive_amount:
  assumes nofault: "faults w = []"
    and row: "single (filter (\<lambda>u. u_id u = userId) (cjpol_users w)) = Some u"
    and nonneg: "0 \<le> u_credits u"
    and amt: "amount \<le> 0"
    and safe: "isSafeInteger (u_credits u)" "isSafeInteger amount"
      "isSafeInteger (u_credits u - amount)"
  shows "fst (consumeCredits userId amount w) = Inr True
       \<and> balance (snd (consumeCredits userId amount w)) userId = Some (u_credits u - amount)
       \<and> (amount < 0 \<longrightarrow> u_credits u < u_credits u - amount)"
proof -
  from safe(3) have exact: "number_minus (u_credits u) amount = u_credits u - amount"
    by (rule number_minus_safe)
  from nonneg amt show ?thesis
    by (simp add: consumeCredits_def getUserById_ok [OF nofault row]
        updateUser_ok [OF nofault row] balance_def filter_id_patched single_map row
        u_credits_apply_patch set_col_def no_patch_def exact)
qed

text \<open>A user with 3 credits who consumes \<open>-2\<close> is told \<open>true\<close> and then owns 5.\<close>

theorem consumeCredits_nonpositive_amount_witness:
  "fst (consumeCredits ''u1'' (- 2) (store [stored_user ''u1'' ''ana@x.com'' ''user'' 3 None] []))
     = Inr True
   \<and> balance (snd (consumeCredits ''u1'' (- 2)
        (store [stored_user ''u1'' ''ana@x.com'' ''user'' 3 None] []))) ''u1'' = Some 5"
proof -
  let ?u = "stored_user ''u1'' ''ana@x.com'' ''user'' 3 None"
  let ?w = "store [?u] []"
  have h1: "faults ?w = []"
    by (simp add: store_def)
  have h2: "single (filter (\<lambda>u. u_id u = ''u1'') (cjpol_users ?w)) = Some ?u"
    by (simp add: store_def stored_user_def)
  have h3: "0 \<le> u_credits ?u"
    by (simp add: stored_user_def)
  have h4: "(- 2::int) \<le> 0"
    by simp
  have h5: "isSafeInteger (u_credits ?u)" "isSafeInteger (- 2)"
    "isSafeInteger (u_credits ?u - (- 2))"
    by (simp_all add: stored_user_def isSafeInteger_def MAX_SAFE_INTEGER_def)
  have c: "u_credits ?u - (- 2) = 5"
    by (simp add: stored_user_def)
  from consumeCredits_nonpositive_amount [OF h1 h2 h3 h4 h5] c show ?thesis
    by simp
qed

text \<open>
  C6, as the code has it. \<open>consumeCredits\<close> never throws: it always returns a boolean.
  When one of the requests it sends to the store fails (the three requests of a
  call are the read, the read inside \<open>updateUser\<close> and the write), the result is \<open>false\<close>
  and the table is as it was: the failure is never reported as success, and it is not
  reported as an error either.
\<close>

theorem consumeCredits_storage_failure:
  "(\<exists>b. fst (consumeCredits userId amount w) = Inr b)
   \<and> (True \<in> set (take 3 (faults w)) \<longrightarrow>
        fst (consumeCredits userId amount w) = Inr False
      \<and> cjpol_users (snd (consumeCredits userId amount w)) = cjpol_users w)"
proof (rule conjI [OF consumeCredits_total], rule impI)
  assume flt: "True \<in> set (take 3 (faults w))"
  obtain r w1 where g: "getUserById userId w = (r, w1)"
    by (cases "getUserById userId w")
  have rows1: "cjpol_users w1 = cjpol_users w"
    using getUserById_rows [of userId w] g by simp
  have f1: "faults w1 = tl (faults w)"
    using getUserById_faults [of userId w] g by simp
  show "fst (consumeCredits userId amount w) = Inr False
      \<and> cjpol_users (snd (consumeCredits userId amount w)) = cjpol_users w"
  proof (cases r)
    case (Inl e)
    with g rows1 show ?thesis by (simp add: consumeCredits_def)
  next
    case (Inr user)
    obtain f fs where fs: "faults w = f # fs"
      using flt by (cases "faults w") auto
    have "f = False"
      using getUserById_fault [of w fs userId] fs g Inr by (cases f) auto
    with flt fs f1 have "True \<in> set (take 2 (faults w1))"
      by (simp add: numeral_3_eq_3 numeral_2_eq_2)
    from updateUser_fault [OF this]
    obtain e w2 where u: "updateUser userId
        (no_patch\<lparr>p_credits := Some (number_minus (u_credits user) amount)\<rparr>) w1 = (Inl e, w2)"
      by (metis prod.collapse)
    from updateUser_fails_rows [OF u] rows1 have "cjpol_users w2 = cjpol_users w" by simp
    with g Inr u rows1 show ?thesis by (simp add: consumeCredits_def)
  qed
qed

text \<open>
  A user with 5 credits consumes 1 and the write fails: \<open>updateUser\<close> throws its
  \<open>InternalServerError\<close>, and the caller is handed \<open>false\<close> with the table unchanged.
\<close>

theorem consumeCredits_storage_failure_witness:
  "True \<in> set (take 3 [False, False, True])
   \<and> fst (consumeCredits ''u1'' 1
        (store [stored_user ''u1'' ''ana@x.com'' ''user'' 5 None] [False, False, True])) = Inr False
   \<and> cjpol_users (snd (consumeCredits ''u1'' 1
        (store [stored_user ''u1'' ''ana@x.com'' ''user'' 5 None] [False, False, True])))
       = [stored_user ''u1'' ''ana@x.com'' ''user'' 5 None]"
proof -
  let ?w = "store [stored_user ''u1'' ''ana@x.com'' ''user'' 5 None] [False, False, True]"
  have h: "True \<in> set (take 3 (faults ?w))"
    by (simp add: store_def)
  have t: "True \<in> set (take 3 [False, False, True])"
    by simp
  have r: "cjpol_users ?w = [stored_user ''u1'' ''ana@x.com'' ''user'' 5 None]"
    by (simp add: store_def)
  from consumeCredits_storage_failure [of "''u1''" 1 ?w] h t r show ?thesis
    by simp
qed

text \<open>
  C6 as the specification states it fails: with the write failing, \<open>updateUser\<close> ends
  in \<open>InternalServerError('Failed to update user')\<close>, yet \<open>consumeCredits\<close> returns the
  result \<open>false\<close> and no error.
\<close>

theorem consumeCredits_swallows_storage_error:
  "fst (updateUser ''u1'' (no_patch\<lparr>p_credits := Some 4\<rparr>)
          (store [stored_user ''u1'' ''ana@x.com'' ''user'' 5 None] [False, True]))
     = Inl (InternalServerError ''Failed to update user'')
   \<and> fst (consumeCredits ''u1'' 1
        (store [stored_user ''u1'' ''ana@x.com'' ''user'' 5 None] [False, False, True]))
     = Inr False
   \<and> fst (consumeCredits ''u1'' 1
        (store [stored_user ''u1'' ''ana@x.com'' ''user'' 5 None] [False, False, True]))
     \<noteq> Inl (InternalServerError ''Failed to update user'')"
  by (simp add: consumeCredits_def updateUser_def getUserById_def select_single_def
      update_single_def db_request_def store_def stored_user_def)


section \<open>What a successful request tells\<close>

lemma single_Some_iff: "single xs = Some x \<longleftrightarrow> xs = [x]"
  by (cases xs rule: single.cases) auto

lemma single_filter_mem: "single (filter p xs) = Some x \<Longrightarrow> x \<in> set xs \<and> p x"
proof -
  assume "single (filter p xs) = Some x"
  then have "filter p xs = [x]" by (simp add: single_Some_iff)
  then have "x \<in> set (filter p xs)" by simp
  then show ?thesis by simp
qed

lemma select_single_result:
  "select_single p w = (r, w') \<Longrightarrow>
     cjpol_users w' = cjpol_users w \<and> now_iso w' = now_iso w \<and> now_epoch w' = now_epoch w
   \<and> next_uuid w' = next_uuid w
   \<and> (r = None \<or> r = single (filter p (cjpol_users w)))"
  by (auto simp: select_single_def db_request_def split: list.splits bool.splits)

lemma select_single_Some:
  "select_single p w = (Some u, w') \<Longrightarrow>
     cjpol_users w' = cjpol_users w \<and> now_iso w' = now_iso w
   \<and> single (filter p (cjpol_users w)) = Some u"
  using select_single_result [of p w "Some u" w'] by auto

lemma getUserById_Inr:
  "getUserById i w = (Inr u, w') \<Longrightarrow>
     cjpol_users w' = cjpol_users w \<and> now_iso w' = now_iso w
   \<and> single (filter (\<lambda>x. u_id x = i) (cjpol_users w)) = Some u"
  by (auto simp: getUserById_def split: prod.splits option.splits dest: select_single_Some)

lemma update_single_Some:
  "update_single i p w = (Some u, w') \<Longrightarrow>
     (\<exists>r. single (filter (\<lambda>x. u_id x = i) (cjpol_users w)) = Some r \<and> u = apply_patch p r)
   \<and> cjpol_users w' = map (\<lambda>x. if u_id x = i then apply_patch p x else x) (cjpol_users w)"
  by (auto simp: update_single_def db_request_def split: list.splits bool.splits option.splits)

lemma updateUser_Inr:
  assumes "updateUser i p w = (Inr u, w')"
  shows "(\<exists>r. single (filter (\<lambda>x. u_id x = i) (cjpol_users w)) = Some r
             \<and> u = apply_patch (p\<lparr>p_updated_at := Some (now_iso w)\<rparr>) r)
       \<and> cjpol_users w' = map (\<lambda>x. if u_id x = i
             then apply_patch (p\<lparr>p_updated_at := Some (now_iso w)\<rparr>) x else x) (cjpol_users w)"
proof -
  obtain r0 w1 where g: "getUserById i w = (Inr r0, w1)"
    using assms by (auto simp: updateUser_def split: prod.splits sum.splits)
  from getUserById_Inr [OF g] have w1: "cjpol_users w1 = cjpol_users w" "now_iso w1 = now_iso w"
    by simp_all
  from assms g have "update_single i (p\<lparr>p_updated_at := Some (now_iso w1)\<rparr>) w1 = (Some u, w')"
    by (auto simp: updateUser_def split: prod.splits option.splits)
  from update_single_Some [OF this] w1 show ?thesis by simp
qed

lemma updateUser_Inr_mem:
  assumes "updateUser i p w = (Inr u, w')"
  shows "u \<in> set (cjpol_users w')"
proof -
  from updateUser_Inr [OF assms] obtain r where
    r: "single (filter (\<lambda>x. u_id x = i) (cjpol_users w)) = Some r"
    and u: "u = apply_patch (p\<lparr>p_updated_at := Some (now_iso w)\<rparr>) r"
    and rows: "cjpol_users w' = map (\<lambda>x. if u_id x = i
             then apply_patch (p\<lparr>p_updated_at := Some (now_iso w)\<rparr>) x else x) (cjpol_users w)"
    by blast
  from single_filter_mem [OF r] have "r \<in> set (cjpol_users w)" "u_id r = i" by simp_all
  then show ?thesis unfolding rows u by force
qed

lemma insert_single_Some:
  "insert_single row w = (Some u, w') \<Longrightarrow> u = row \<and> cjpol_users w' = cjpol_users w @ [row]"
  by (auto simp: insert_single_def db_request_def split: list.splits bool.splits)

lemma createUser_Inr:
  assumes "createUser d w = (Inr u, w')"
  shows "u_role u = (case truthy_string (c_role d) of None \<Rightarrow> USER_ROLES_USER | Some r \<Rightarrow> r)
       \<and> cjpol_users w' = cjpol_users w @ [u]"
proof -
  obtain w1 where g: "getUserByEmail (c_email d) w = (None, w1)"
    using assms by (auto simp: createUser_def split: prod.splits option.splits)
  from select_single_result [of _ w None w1] g have w1: "cjpol_users w1 = cjpol_users w"
    by (simp add: getUserByEmail_def)
  from assms g obtain row where
    ins: "insert_single row w1 = (Some u, w')"
    and role: "u_role row = (case truthy_string (c_role d) of None \<Rightarrow> USER_ROLES_USER | Some r \<Rightarrow> r)"
    by (auto simp: createUser_def Let_def split: prod.splits option.splits)
  from insert_single_Some [OF ins] role w1 show ?thesis by simp
qed

lemma u_role_apply_patch: "u_role (apply_patch p u) = set_col (p_role p) (u_role u)"
  by (simp add: apply_patch_def)

lemma assignedRole_nonempty: "assignedRole e wpUser \<noteq> []"
  by (simp add: assignedRole_def determineUserRole_def USER_ROLES_ADMIN_def USER_ROLES_USER_def)

lemma reconcile_role:
  assumes ok: "getUserOrCreateFromWordPress e wpUser w = (Inr u, w')"
  shows "u_role u = assignedRole e wpUser \<and> u \<in> set (cjpol_users w')"
proof (cases "getUserByWordPressId (wp_id wpUser) w")
  case (Pair r1 w1)
  show ?thesis
  proof (cases r1)
    case (Some stored)
    from select_single_Some [of _ w stored w1] Pair Some
    have rows1: "cjpol_users w1 = cjpol_users w"
      and st: "single (filter (\<lambda>x. u_wordpress_id x = Some (wp_id wpUser)) (cjpol_users w)) = Some stored"
      by (simp_all add: getUserByWordPressId_def)
    show ?thesis
    proof (cases "u_name stored \<noteq> wp_name wpUser \<or> u_email stored \<noteq> wp_email wpUser
              \<or> u_role stored \<noteq> assignedRole e wpUser
              \<or> (isDevModeUser e wpUser \<and> u_credits stored \<noteq> DEV_MODE_CREDITS e)")
      case True
      with ok Pair Some obtain p where
        upd: "updateUser (u_id stored) p w1 = (Inr u, w')" and p: "p_role p = Some (assignedRole e wpUser)"
        by (simp add: getUserOrCreateFromWordPress_def Let_def)
      from updateUser_Inr [OF upd] p updateUser_Inr_mem [OF upd] show ?thesis
        by (auto simp: u_role_apply_patch set_col_def)
    next
      case False
      with ok Pair Some have "u = stored" "w' = w1"
        by (auto simp: getUserOrCreateFromWordPress_def Let_def split: if_splits)
      with False single_filter_mem [OF st] rows1 show ?thesis by simp
    qed
  next
    case None
    show ?thesis
    proof (cases "getUserByEmail (wp_email wpUser) w1")
      case (Pair r2 w2)
      note P2 = Pair
      show ?thesis
      proof (cases r2)
        case (Some byEmail)
        with ok \<open>getUserByWordPressId (wp_id wpUser) w = (r1, w1)\<close> None P2 obtain p where
          upd: "updateUser (u_id byEmail) p w2 = (Inr u, w')" and p: "p_role p = Some (assignedRole e wpUser)"
          by (simp add: getUserOrCreateFromWordPress_def Let_def)
        from updateUser_Inr [OF upd] p updateUser_Inr_mem [OF upd] show ?thesis
          by (auto simp: u_role_apply_patch set_col_def)
      next
        case None2: None
        with ok \<open>getUserByWordPressId (wp_id wpUser) w = (r1, w1)\<close> None P2 obtain d where
          cr: "createUser d w2 = (Inr u, w')" and d: "c_role d = Some (assignedRole e wpUser)"
          by (simp add: getUserOrCreateFromWordPress_def Let_def)
        from createUser_Inr [OF cr] d assignedRole_nonempty [of e wpUser] show ?thesis
          by (simp add: truthy_string_def)
      qed
    qed
  qed
qed


section \<open>Identity reconciler: the role\<close>

text \<open>
  C7. Whenever \<open>getUserOrCreateFromWordPress\<close> succeeds for an identity that is not the
  development identity, the role of the record it returns is \<open>admin\<close> exactly when the
  identity's roles contain \<open>administrator\<close>, and \<open>user\<close> otherwise, whatever role was
  stored before; the returned record is a row of the table afterwards.
\<close>

theorem role_recomputed_on_reconciliation:
  assumes ok: "getUserOrCreateFromWordPress e wpUser w = (Inr u, w')"
    and nodev: "\<not> isDevModeUser e wpUser"
  shows "(u_role u = ''admin'' \<longleftrightarrow> ''administrator'' \<in> set (wp_roles wpUser))
       \<and> (u_role u = ''user'' \<longleftrightarrow> ''administrator'' \<notin> set (wp_roles wpUser))
       \<and> u \<in> set (cjpol_users w')"
  using reconcile_role [OF ok] nodev
  by (simp add: assignedRole_def determineUserRole_def USER_ROLES_ADMIN_def USER_ROLES_USER_def
      WP_ROLE_MAPPING_ADMIN_def)



text \<open>
  Role loss: a stored admin whose identity now has only the role \<open>subscriber\<close> is
  returned with role \<open>user\<close>.
\<close>

theorem role_recomputed_on_reconciliation_witness:
  "\<not> isDevModeUser (environment None) (identity ''42'' ''ana@x.com'' [''subscriber''] (Some ''2''))
   \<and> u_role (stored_user ''u1'' ''ana@x.com'' ''admin'' 20 (Some ''42'')) = ''admin''
   \<and> (case fst (getUserOrCreateFromWordPress (environment None)
                  (identity ''42'' ''ana@x.com'' [''subscriber''] (Some ''2''))
                  (store [stored_user ''u1'' ''ana@x.com'' ''admin'' 20 (Some ''42'')] [])) of
         Inr u \<Rightarrow> u_role u = ''user'' | Inl _ \<Rightarrow> False)"
proof -
  let ?e = "environment None"
  let ?wp = "identity ''42'' ''ana@x.com'' [''subscriber''] (Some ''2'')"
  let ?w = "store [stored_user ''u1'' ''ana@x.com'' ''admin'' 20 (Some ''42'')] []"
  have nodev: "\<not> isDevModeUser ?e ?wp"
    by (simp add: isDevModeUser_def config_defs example_defs)
  have adm: "u_role (stored_user ''u1'' ''ana@x.com'' ''admin'' 20 (Some ''42'')) = ''admin''"
    by (simp add: stored_user_def)
  have "\<exists>u w'. getUserOrCreateFromWordPress ?e ?wp ?w = (Inr u, w')"
    by (simp add: service_defs config_defs example_defs Let_def)
  then obtain u w' where ok: "getUserOrCreateFromWordPress ?e ?wp ?w = (Inr u, w')"
    by blast
  have roles: "''administrator'' \<notin> set (wp_roles ?wp)"
    by (simp add: identity_def)
  from role_recomputed_on_reconciliation [OF ok nodev] roles have "u_role u = ''user''"
    by blast
  with ok nodev adm show ?thesis
    by simp
qed


section \<open>Credential verifier: the development path\<close>

lemma env_or_nonempty: "d \<noteq> [] \<Longrightarrow> env_or v d \<noteq> []"
  by (simp add: env_or_def split: option.splits)

lemma DEV_MODE_EMAIL_nonempty: "DEV_MODE_EMAIL e \<noteq> []"
  by (simp add: DEV_MODE_EMAIL_def env_or_nonempty)

lemma DEV_MODE_PASSWORD_nonempty: "DEV_MODE_PASSWORD e \<noteq> []"
  by (simp add: DEV_MODE_PASSWORD_def env_or_nonempty)

lemma production_not_development: "IS_PRODUCTION e \<Longrightarrow> \<not> IS_DEVELOPMENT e"
  by (simp add: IS_PRODUCTION_def IS_DEVELOPMENT_def)


text \<open>
  C4. In production mode the development path never returns an identity, whatever the
  identifier, the secret and the request: with both given it fails with the
  \<open>UnauthorizedError\<close> of its mode check, also for the configured pair itself; and
  \<open>verifyWordPressCredentials\<close> is then the remote check alone, ending in an
  \<open>UnauthorizedError\<close> when the site rejects the credentials.
\<close>

theorem dev_mode_unreachable_in_production:
  assumes prod: "IS_PRODUCTION e"
  shows "(\<forall>wpUser. verifyWordPressCredentialsDevMode e username password req \<noteq> Inr wpUser)
       \<and> (username \<noteq> [] \<and> password \<noteq> [] \<longrightarrow>
            verifyWordPressCredentialsDevMode e username password req
              = Inl (UnauthorizedError
                  ''Dev mode authentication is only available in development environment''))
       \<and> verifyWordPressCredentialsDevMode e (DEV_MODE_EMAIL e) (DEV_MODE_PASSWORD e) req
              = Inl (UnauthorizedError
                  ''Dev mode authentication is only available in development environment'')
       \<and> verifyWordPressCredentials e wordpress username password req
              = (if username = [] \<or> password = []
                 then Inl (BadRequestError ''Email and password are required'')
                 else (case wordpress username password of
                         Inr wpUser \<Rightarrow> Inr wpUser
                       | Inl _ \<Rightarrow> Inl (UnauthorizedError
                           ''Authentication failed. Please check server logs for details.'')))"
proof -
  note nd = production_not_development [OF prod]
  have a: "\<forall>wpUser. verifyWordPressCredentialsDevMode e username password req \<noteq> Inr wpUser"
    using nd by (simp add: verifyWordPressCredentialsDevMode_def)
  have b: "username \<noteq> [] \<and> password \<noteq> [] \<longrightarrow>
            verifyWordPressCredentialsDevMode e username password req
              = Inl (UnauthorizedError
                  ''Dev mode authentication is only available in development environment'')"
    using nd by (simp add: verifyWordPressCredentialsDevMode_def)
  have c: "verifyWordPressCredentialsDevMode e (DEV_MODE_EMAIL e) (DEV_MODE_PASSWORD e) req
              = Inl (UnauthorizedError
                  ''Dev mode authentication is only available in development environment'')"
    using nd DEV_MODE_EMAIL_nonempty [of e] DEV_MODE_PASSWORD_nonempty [of e]
    by (simp add: verifyWordPressCredentialsDevMode_def)
  have d: "verifyWordPressCredentials e wordpress username password req
              = (if username = [] \<or> password = []
                 then Inl (BadRequestError ''Email and password are required'')
                 else (case wordpress username password of
                         Inr wpUser \<Rightarrow> Inr wpUser
                       | Inl _ \<Rightarrow> Inl (UnauthorizedError
                           ''Authentication failed. Please check server logs for details.'')))"
    using nd
    by (simp add: verifyWordPressCredentials_def verifyWordPressCredentialsWithJWT_def
        split: sum.splits)
  from a b c d show ?thesis by blast
qed


text \<open>
  Production by default (\<open>NODE_ENV\<close> unset), a well-formed fallback pair configured, the
  caller on the loopback address and the supplied pair equal to the configured one:
  both functions fail with \<open>UnauthorizedError\<close>.
\<close>

theorem dev_mode_unreachable_in_production_witness:
  "IS_PRODUCTION (environment None)
   \<and> DEV_MODE_EMAIL (environment None) = ''dev@cjpol.test''
   \<and> DEV_MODE_PASSWORD (environment None) = ''correct horse battery''
   \<and> verifyWordPressCredentialsDevMode (environment None)
        ''dev@cjpol.test'' ''correct horse battery'' (Some \<lparr>req_ip = Some ''127.0.0.1''\<rparr>)
       = Inl (UnauthorizedError
               ''Dev mode authentication is only available in development environment'')
   \<and> verifyWordPressCredentials (environment None) rejecting_site
        ''dev@cjpol.test'' ''correct horse battery'' (Some \<lparr>req_ip = Some ''127.0.0.1''\<rparr>)
       = Inl (UnauthorizedError ''Authentication failed. Please check server logs for details.'')"
proof -
  let ?e = "environment None"
  have p: "IS_PRODUCTION ?e"
    by (simp add: IS_PRODUCTION_def NODE_ENV_def env_or_def environment_def)
  have m: "DEV_MODE_EMAIL ?e = ''dev@cjpol.test''"
    by (simp add: DEV_MODE_EMAIL_def env_or_def environment_def)
  have s: "DEV_MODE_PASSWORD ?e = ''correct horse battery''"
    by (simp add: DEV_MODE_PASSWORD_def env_or_def environment_def)
  from dev_mode_unreachable_in_production [OF p, of "''dev@cjpol.test''" "''correct horse battery''"
      "Some \<lparr>req_ip = Some ''127.0.0.1''\<rparr>" rejecting_site] p m s
  show ?thesis
    by (simp add: rejecting_site_def)
qed


section \<open>Membership resolver and entitlement mapper\<close>

lemma parseInt10_999: "parseInt10 ''999'' = Some 999"
  by (simp add: parseInt_defs)

lemma membership_credits:
  "mapMembershipToCredits (getMembershipLevel wpUser) =
     (case wp_pmpro_membership wpUser of
        None \<Rightarrow> 5
      | Some membership \<Rightarrow>
          if parseInt10 (pm_level membership) = Some 2 then 20
          else if parseInt10 (pm_level membership) = Some 1 then 10 else 5)"
  by (simp add: mapMembershipToCredits_def getMembershipLevel_def config_defs Let_def
      split: option.splits)


text \<open>
  C3 at the descriptor of the development path. Its level is \<open>999\<close>;
  \<open>getMembershipLevel\<close> resolves it to level 0 (free), so the composition yields 5
  credits. \<open>mapMembershipToCredits\<close> would give 500 for level id 999, which
  \<open>getMembershipLevel\<close> never returns.
\<close>

theorem developer_level_resolves_to_free:
  "map_option pm_level (wp_pmpro_membership (devModeUser e)) = Some ''999''
   \<and> m_id (getMembershipLevel (devModeUser e)) = 0
   \<and> mapMembershipToCredits (getMembershipLevel (devModeUser e)) = 5
   \<and> mapMembershipToCredits ((getMembershipLevel (devModeUser e))\<lparr>m_id := 999\<rparr>) = 500"
  by (simp add: membership_credits devModeUser_def parseInt10_999 getMembershipLevel_def
      mapMembershipToCredits_def config_defs)

section \<open>Token issuer\<close>

text \<open>
  C9. A token issued at time \<open>clock\<close> and verified before its expiry (at once, when the
  configured lifetime is positive) gives back claims with the id, email and role that
  were issued. Verified at or after \<open>clock + JWT_EXPIRATION\<close> it fails with
  \<open>UnauthorizedError('Token expired')\<close>; a string that is no token, or a token signed
  with another key, fails with \<open>UnauthorizedError('Invalid token')\<close>; the two errors
  differ.
\<close>

theorem token_round_trip:
  "(later < clock + JWT_EXPIRATION e \<longrightarrow>
      (\<exists>c. verifyToken e later (generateToken e clock p) = Inr c
          \<and> jwt_id c = jwt_id p \<and> jwt_email c = jwt_email p \<and> jwt_role c = jwt_role p))
   \<and> (0 < JWT_EXPIRATION e \<longrightarrow>
      (\<exists>c. verifyToken e clock (generateToken e clock p) = Inr c
          \<and> jwt_id c = jwt_id p \<and> jwt_email c = jwt_email p \<and> jwt_role c = jwt_role p))
   \<and> (clock + JWT_EXPIRATION e \<le> later \<longrightarrow>
        verifyToken e later (generateToken e clock p) = Inl (UnauthorizedError ''Token expired''))
   \<and> verifyToken e clock (Malformed s) = Inl (UnauthorizedError ''Invalid token'')
   \<and> (secret \<noteq> JWT_SECRET e \<longrightarrow>
        verifyToken e clock (jwt_sign p secret (JWT_EXPIRATION e) clock)
          = Inl (UnauthorizedError ''Invalid token''))
   \<and> UnauthorizedError ''Token expired'' \<noteq> UnauthorizedError ''Invalid token''"
  by (simp add: verifyToken_def generateToken_def jwt_sign_def jwt_verify_def Let_def
      instanceof_TokenExpiredError_def instanceof_JsonWebTokenError_def)

text \<open>
  With a lifetime of one day: verified in the second of issue the token gives the claims
  back; one day later it is expired; signed with another key it is invalid.
\<close>

theorem token_round_trip_witness:
  "0 < JWT_EXPIRATION (environment None)
   \<and> (\<exists>c. verifyToken (environment None) 1748779200
            (generateToken (environment None) 1748779200
               \<lparr>jwt_id = ''u1'', jwt_email = ''ana@x.com'', jwt_role = ''user''\<rparr>) = Inr c
         \<and> jwt_id c = ''u1'' \<and> jwt_email c = ''ana@x.com'' \<and> jwt_role c = ''user'')
   \<and> verifyToken (environment None) (1748779200 + 86400)
        (generateToken (environment None) 1748779200
           \<lparr>jwt_id = ''u1'', jwt_email = ''ana@x.com'', jwt_role = ''user''\<rparr>)
       = Inl (UnauthorizedError ''Token expired'')
   \<and> verifyToken (environment None) 1748779200
        (jwt_sign \<lparr>jwt_id = ''u1'', jwt_email = ''ana@x.com'', jwt_role = ''admin''\<rparr>
           ''guessed-key'' (JWT_EXPIRATION (environment None)) 1748779200)
       = Inl (UnauthorizedError ''Invalid token'')"
proof -
  let ?e = "environment None"
  let ?p = "\<lparr>jwt_id = ''u1'', jwt_email = ''ana@x.com'', jwt_role = ''user''\<rparr>"
  have life: "JWT_EXPIRATION ?e = 86400"
    by (simp add: environment_def)
  have key: "''guessed-key'' \<noteq> JWT_SECRET ?e"
    by (simp add: JWT_SECRET_def env_or_def environment_def)
  from token_round_trip [of 1748779200 1748779200 ?e ?p]
  have a: "\<exists>c. verifyToken ?e 1748779200 (generateToken ?e 1748779200 ?p) = Inr c
         \<and> jwt_id c = ''u1'' \<and> jwt_email c = ''ana@x.com'' \<and> jwt_role c = ''user''"
    using life by simp
  from token_round_trip [of "1748779200 + 86400" 1748779200 ?e ?p]
  have b: "verifyToken ?e (1748779200 + 86400) (generateToken ?e 1748779200 ?p)
       = Inl (UnauthorizedError ''Token expired'')"
    using life by simp
  from token_round_trip [of 1748779200 1748779200 ?e
      "\<lparr>jwt_id = ''u1'', jwt_email = ''ana@x.com'', jwt_role = ''admin''\<rparr>" _ "''guessed-key''"] key
  have c: "verifyToken ?e 1748779200
        (jwt_sign \<lparr>jwt_id = ''u1'', jwt_email = ''ana@x.com'', jwt_role = ''admin''\<rparr>
           ''guessed-key'' (JWT_EXPIRATION ?e) 1748779200)
       = Inl (UnauthorizedError ''Invalid token'')"
    by blast
  from a b c life show ?thesis
    by simp
qed


section \<open>Identity reconciler: a record found by email\<close>

lemma u_wordpress_id_apply_patch:
  "u_wordpress_id (apply_patch p u) = set_col (p_wordpress_id p) (u_wordpress_id u)"
  by (simp add: apply_patch_def)


text \<open>
  C8, as the code has it. The store answers every request, no record carries the
  identity's subject id, the record with the identity's email carries another subject
  id, and ids are keys. Then reconciliation succeeds: it returns that record with its
  subject id replaced by the incoming one, and this is what the table holds afterwards.
  No conflict is reported.
\<close>

theorem email_match_overwrites_external_id:
  assumes nofault: "faults w = []"
    and not_by_id: "single (filter (\<lambda>x. u_wordpress_id x = Some (wp_id wpUser)) (cjpol_users w)) = None"
    and by_email: "single (filter (\<lambda>x. u_email x = wp_email wpUser) (cjpol_users w)) = Some r"
    and key: "single (filter (\<lambda>x. u_id x = u_id r) (cjpol_users w)) = Some r"
    and other: "u_wordpress_id r = Some other"
    and differs: "other \<noteq> wp_id wpUser"
  shows "\<exists>u. fst (getUserOrCreateFromWordPress e wpUser w) = Inr u
           \<and> u_id u = u_id r
           \<and> u_wordpress_id u = Some (wp_id wpUser)
           \<and> u_wordpress_id u \<noteq> u_wordpress_id r
           \<and> single (filter (\<lambda>x. u_id x = u_id r)
                (cjpol_users (snd (getUserOrCreateFromWordPress e wpUser w)))) = Some u"
  using other differs
  by (simp add: getUserOrCreateFromWordPress_def getUserByWordPressId_def getUserByEmail_def
      select_single_ok [OF nofault] not_by_id by_email Let_def
      updateUser_ok [OF nofault key] filter_id_patched single_map key
      u_id_apply_patch u_wordpress_id_apply_patch set_col_def no_patch_def)


text \<open>
  The record of \<open>ana@x.com\<close> is linked to subject 41; an identity with subject 42 and
  the same email logs in and takes the record over.
\<close>

theorem email_match_overwrites_external_id_witness:
  "u_wordpress_id (stored_user ''u1'' ''ana@x.com'' ''user'' 20 (Some ''41'')) = Some ''41''
   \<and> ''41'' \<noteq> wp_id (identity ''42'' ''ana@x.com'' [] None)
   \<and> (\<exists>u. fst (getUserOrCreateFromWordPress (environment None)
               (identity ''42'' ''ana@x.com'' [] None)
               (store [stored_user ''u1'' ''ana@x.com'' ''user'' 20 (Some ''41'')] [])) = Inr u
          \<and> u_id u = ''u1'' \<and> u_wordpress_id u = Some ''42'')"
proof -
  let ?e = "environment None"
  let ?wp = "identity ''42'' ''ana@x.com'' [] None"
  let ?r = "stored_user ''u1'' ''ana@x.com'' ''user'' 20 (Some ''41'')"
  let ?w = "store [?r] []"
  have h1: "faults ?w = []"
    by (simp add: store_def)
  have h2: "single (filter (\<lambda>x. u_wordpress_id x = Some (wp_id ?wp)) (cjpol_users ?w)) = None"
    by (simp add: example_defs)
  have h3: "single (filter (\<lambda>x. u_email x = wp_email ?wp) (cjpol_users ?w)) = Some ?r"
    by (simp add: example_defs)
  have h4: "single (filter (\<lambda>x. u_id x = u_id ?r) (cjpol_users ?w)) = Some ?r"
    by (simp add: example_defs)
  have h5: "u_wordpress_id ?r = Some ''41''"
    by (simp add: stored_user_def)
  have h6: "''41'' \<noteq> wp_id ?wp"
    by (simp add: identity_def)
  have i: "u_id ?r = ''u1''" "wp_id ?wp = ''42''"
    by (simp_all add: example_defs)
  from email_match_overwrites_external_id [OF h1 h2 h3 h4 h5 h6, of ?e] h5 h6 i show ?thesis
    by auto
qed


text \<open>
  C8 as the specification states it fails on the same input: the call does not end in
  an error, and the only row of the table now carries subject id 42.
\<close>

theorem email_match_conflict_not_rejected:
  "\<not> isl (fst (getUserOrCreateFromWordPress (environment None)
              (identity ''42'' ''ana@x.com'' [] None)
              (store [stored_user ''u1'' ''ana@x.com'' ''user'' 20 (Some ''41'')] [])))
   \<and> map u_wordpress_id (cjpol_users (snd (getUserOrCreateFromWordPress (environment None)
              (identity ''42'' ''ana@x.com'' [] None)
              (store [stored_user ''u1'' ''ana@x.com'' ''user'' 20 (Some ''41'')] []))))
       = [Some ''42'']"
  by (simp add: service_defs config_defs example_defs Let_def)


section \<open>Identity reconciler: reconciling again\<close>

lemma filter_map_patched_keep:
  assumes "\<And>x. P (g x) = P x"
  shows "filter P (map (\<lambda>x. if Q x then g x else x) xs) = map (\<lambda>x. if Q x then g x else x) (filter P xs)"
  using assms by (induction xs) simp_all

lemma filter_map_patched_new:
  assumes "\<forall>x\<in>set xs. \<not> P x" and "\<And>x. P (g x)"
  shows "filter P (map (\<lambda>x. if Q x then g x else x) xs) = map g (filter Q xs)"
  using assms by (induction xs) simp_all

lemma updateUser_faults:
  "faults w = [] \<Longrightarrow> updateUser i p w = (r, w') \<Longrightarrow> faults w' = []"
  by (auto simp: updateUser_def getUserById_def select_single_ok update_single_def db_request_ok
      split: option.splits)

lemma createUser_faults:
  "faults w = [] \<Longrightarrow> createUser d w = (r, w') \<Longrightarrow> faults w' = []"
  by (auto simp: createUser_def getUserByEmail_def select_single_ok insert_single_def
      db_request_ok Let_def split: option.splits)

lemma createUser_Inr_fields:
  assumes "createUser d w = (Inr u, w')"
  shows "u_email u = c_email d \<and> u_name u = c_name d
       \<and> u_credits u = (case c_credits d of None \<Rightarrow> 0 | Some c \<Rightarrow> c)
       \<and> u_wordpress_id u = truthy_string (c_wordpress_id d)"
proof -
  obtain w1 where g: "getUserByEmail (c_email d) w = (None, w1)"
    using assms by (auto simp: createUser_def split: prod.splits option.splits)
  from assms g obtain row where
    ins: "insert_single row w1 = (Some u, w')"
    and row: "u_email row = c_email d" "u_name row = c_name d"
      "u_credits row = (case c_credits d of None \<Rightarrow> 0 | Some c \<Rightarrow> c)"
      "u_wordpress_id row = truthy_string (c_wordpress_id d)"
    by (auto simp: createUser_def Let_def split: prod.splits option.splits)
  from insert_single_Some [OF ins] row show ?thesis by simp
qed

lemma single_same_key:
  "single (filter p xs) = Some r \<Longrightarrow> x \<in> set xs \<Longrightarrow> p x \<Longrightarrow> x = r"
proof -
  assume a: "single (filter p xs) = Some r" and "x \<in> set xs" "p x"
  then have "x \<in> set (filter p xs)" by simp
  with a show ?thesis by (simp add: single_Some_iff)
qed

lemma apply_patch_fields:
  "u_name (apply_patch p u) = set_col (p_name p) (u_name u)"
  "u_email (apply_patch p u) = set_col (p_email p) (u_email u)"
  by (simp_all add: apply_patch_def)


text \<open>
  C2. A record linked to the identity's subject id is stored and the store answers every
  request. Then reconciling leaves the number of rows as it is; and when name, email,
  role and, for the development identity, credits of the stored record equal the
  identity's, nothing is written: the result is the stored record and the world is
  unchanged.
\<close>

theorem reconcile_again_is_idempotent:
  assumes nofault: "faults w = []"
    and linked: "single (filter (\<lambda>x. u_wordpress_id x = Some (wp_id wpUser)) (cjpol_users w))
                   = Some stored"
  shows "length (cjpol_users (snd (getUserOrCreateFromWordPress e wpUser w)))
           = length (cjpol_users w)
       \<and> (u_name stored = wp_name wpUser \<and> u_email stored = wp_email wpUser
            \<and> u_role stored = assignedRole e wpUser
            \<and> (isDevModeUser e wpUser \<longrightarrow> u_credits stored = DEV_MODE_CREDITS e)
          \<longrightarrow> getUserOrCreateFromWordPress e wpUser w = (Inr stored, w))"
proof -
  have found: "getUserByWordPressId (wp_id wpUser) w = (Some stored, w)"
    by (simp add: getUserByWordPressId_def select_single_ok [OF nofault] linked)
  have upd: "length (cjpol_users (snd (updateUser i p w))) = length (cjpol_users w)" for i p
  proof (cases "updateUser i p w")
    case (Pair r w')
    show ?thesis
    proof (cases r)
      case (Inl err)
      with Pair updateUser_fails_rows [of i p w err w'] show ?thesis by simp
    next
      case (Inr u)
      with Pair updateUser_Inr [of i p w u w'] show ?thesis by simp
    qed
  qed
  have count: "length (cjpol_users (snd (getUserOrCreateFromWordPress e wpUser w)))
           = length (cjpol_users w)"
    by (simp add: getUserOrCreateFromWordPress_def found Let_def upd)
  have same: "getUserOrCreateFromWordPress e wpUser w = (Inr stored, w)"
    if "u_name stored = wp_name wpUser \<and> u_email stored = wp_email wpUser
            \<and> u_role stored = assignedRole e wpUser
            \<and> (isDevModeUser e wpUser \<longrightarrow> u_credits stored = DEV_MODE_CREDITS e)"
    using that by (auto simp: getUserOrCreateFromWordPress_def found Let_def)
  from count same show ?thesis by blast
qed


text \<open>
  A successful reconciliation puts the table in that state: when the subject id is not
  empty and the table has at most one record for it, the returned record is afterwards
  the one linked to the subject id, and it agrees with the identity.
\<close>

lemma reconcile_links:
  assumes nofault: "faults w = []"
    and uniq: "length (filter (\<lambda>x. u_wordpress_id x = Some (wp_id wpUser)) (cjpol_users w)) \<le> 1"
    and wid: "wp_id wpUser \<noteq> []"
    and ok: "getUserOrCreateFromWordPress e wpUser w = (Inr u, w')"
  shows "faults w' = []
       \<and> single (filter (\<lambda>x. u_wordpress_id x = Some (wp_id wpUser)) (cjpol_users w')) = Some u
       \<and> u_name u = wp_name wpUser \<and> u_email u = wp_email wpUser
       \<and> u_role u = assignedRole e wpUser
       \<and> (isDevModeUser e wpUser \<longrightarrow> u_credits u = DEV_MODE_CREDITS e)"
proof -
  let ?P = "\<lambda>x. u_wordpress_id x = Some (wp_id wpUser)"
  note role = reconcile_role [OF ok]
  show ?thesis
  proof (cases "filter ?P (cjpol_users w)")
    case Nil
    then have none: "\<forall>x\<in>set (cjpol_users w). \<not> ?P x"
      by (simp add: filter_empty_conv)
    from Nil have byid: "getUserByWordPressId (wp_id wpUser) w = (None, w)"
      by (simp add: getUserByWordPressId_def select_single_ok [OF nofault])
    show ?thesis
    proof (cases "single (filter (\<lambda>x. u_email x = wp_email wpUser) (cjpol_users w))")
      case (Some byEmail)
      then have bym: "getUserByEmail (wp_email wpUser) w = (Some byEmail, w)"
        by (simp add: getUserByEmail_def select_single_ok [OF nofault])
      from single_filter_mem [OF Some] have be: "byEmail \<in> set (cjpol_users w)"
        "u_email byEmail = wp_email wpUser" by simp_all
      from ok byid bym obtain p where
        upd: "updateUser (u_id byEmail) p w = (Inr u, w')"
        and p: "p_wordpress_id p = Some (Some (wp_id wpUser))" "p_name p = Some (wp_name wpUser)"
          "p_email p = None"
          "p_credits p = (if isDevModeUser e wpUser then Some (DEV_MODE_CREDITS e) else None)"
        by (simp add: getUserOrCreateFromWordPress_def Let_def no_patch_def)
      let ?p = "p\<lparr>p_updated_at := Some (now_iso w)\<rparr>"
      from updateUser_Inr [OF upd] obtain r where
        r: "single (filter (\<lambda>x. u_id x = u_id byEmail) (cjpol_users w)) = Some r"
        and u: "u = apply_patch ?p r"
        and rows: "cjpol_users w' = map (\<lambda>x. if u_id x = u_id byEmail
             then apply_patch ?p x else x) (cjpol_users w)"
        by blast
      from single_same_key [OF r be(1)] have rb: "r = byEmail" by simp
      have "filter ?P (cjpol_users w') = map (apply_patch ?p)
              (filter (\<lambda>x. u_id x = u_id byEmail) (cjpol_users w))"
        unfolding rows
        by (rule filter_map_patched_new [OF none])
           (simp add: u_wordpress_id_apply_patch p set_col_def)
      with r u have link: "single (filter ?P (cjpol_users w')) = Some u"
        by (simp add: single_map)
      from u rb be p have fields: "u_name u = wp_name wpUser" "u_email u = wp_email wpUser"
        "isDevModeUser e wpUser \<longrightarrow> u_credits u = DEV_MODE_CREDITS e"
        by (simp_all add: apply_patch_fields u_credits_apply_patch set_col_def)
      from updateUser_faults [OF nofault upd] link fields role show ?thesis by simp
    next
      case None
      then have bym: "getUserByEmail (wp_email wpUser) w = (None, w)"
        by (simp add: getUserByEmail_def select_single_ok [OF nofault])
      from ok byid bym obtain d where
        cr: "createUser d w = (Inr u, w')"
        and d: "c_wordpress_id d = Some (wp_id wpUser)" "c_name d = wp_name wpUser"
          "c_email d = wp_email wpUser"
          "isDevModeUser e wpUser \<longrightarrow> c_credits d = Some (DEV_MODE_CREDITS e)"
        by (simp add: getUserOrCreateFromWordPress_def Let_def)
      from createUser_Inr [OF cr] have rows: "cjpol_users w' = cjpol_users w @ [u]" by simp
      from createUser_Inr_fields [OF cr] d wid have fields:
        "u_name u = wp_name wpUser" "u_email u = wp_email wpUser"
        "u_wordpress_id u = Some (wp_id wpUser)"
        "isDevModeUser e wpUser \<longrightarrow> u_credits u = DEV_MODE_CREDITS e"
        by (auto simp: truthy_string_def)
      from rows Nil fields have link: "single (filter ?P (cjpol_users w')) = Some u"
        by simp
      from createUser_faults [OF nofault cr] link fields role show ?thesis by simp
    qed
  next
    case (Cons stored rest)
    with uniq have one: "filter ?P (cjpol_users w) = [stored]" by simp
    then have linked: "single (filter ?P (cjpol_users w)) = Some stored" by simp
    from single_filter_mem [OF linked] have st: "stored \<in> set (cjpol_users w)"
      "u_wordpress_id stored = Some (wp_id wpUser)" by simp_all
    have found: "getUserByWordPressId (wp_id wpUser) w = (Some stored, w)"
      by (simp add: getUserByWordPressId_def select_single_ok [OF nofault] linked)
    show ?thesis
    proof (cases "u_name stored \<noteq> wp_name wpUser \<or> u_email stored \<noteq> wp_email wpUser
              \<or> u_role stored \<noteq> assignedRole e wpUser
              \<or> (isDevModeUser e wpUser \<and> u_credits stored \<noteq> DEV_MODE_CREDITS e)")
      case True
      with ok found obtain p where
        upd: "updateUser (u_id stored) p w = (Inr u, w')"
        and p: "p_wordpress_id p = None" "p_name p = Some (wp_name wpUser)"
          "p_email p = Some (wp_email wpUser)"
          "p_credits p = (if isDevModeUser e wpUser then Some (DEV_MODE_CREDITS e) else None)"
        by (simp add: getUserOrCreateFromWordPress_def Let_def no_patch_def)
      let ?p = "p\<lparr>p_updated_at := Some (now_iso w)\<rparr>"
      from updateUser_Inr [OF upd] obtain r where
        r: "single (filter (\<lambda>x. u_id x = u_id stored) (cjpol_users w)) = Some r"
        and u: "u = apply_patch ?p r"
        and rows: "cjpol_users w' = map (\<lambda>x. if u_id x = u_id stored
             then apply_patch ?p x else x) (cjpol_users w)"
        by blast
      from single_same_key [OF r st(1)] have rs: "r = stored" by simp
      have "filter ?P (cjpol_users w') = map (\<lambda>x. if u_id x = u_id stored
             then apply_patch ?p x else x) (filter ?P (cjpol_users w))"
        unfolding rows
        by (rule filter_map_patched_keep) (simp add: u_wordpress_id_apply_patch p set_col_def)
      with one u rs have link: "single (filter ?P (cjpol_users w')) = Some u"
        by simp
      from u p have fields: "u_name u = wp_name wpUser" "u_email u = wp_email wpUser"
        "isDevModeUser e wpUser \<longrightarrow> u_credits u = DEV_MODE_CREDITS e"
        by (simp_all add: apply_patch_fields u_credits_apply_patch set_col_def)
      from updateUser_faults [OF nofault upd] link fields role show ?thesis by simp
    next
      case False
      with ok found have "u = stored" "w' = w"
        by (auto simp: getUserOrCreateFromWordPress_def Let_def split: if_splits)
      with False linked nofault show ?thesis by simp
    qed
  qed
qed



text \<open>
  A new identity is reconciled into an empty table, which creates one row; reconciling
  it again gives the same result and the same world.
\<close>

theorem reconcile_again_is_idempotent_witness:
  "\<not> isl (fst (getUserOrCreateFromWordPress (environment None)
              (identity ''42'' ''ana@x.com'' [''subscriber''] (Some ''2'')) (store [] [])))
   \<and> length (cjpol_users (snd (getUserOrCreateFromWordPress (environment None)
              (identity ''42'' ''ana@x.com'' [''subscriber''] (Some ''2'')) (store [] [])))) = 1
   \<and> getUserOrCreateFromWordPress (environment None)
        (identity ''42'' ''ana@x.com'' [''subscriber''] (Some ''2''))
        (snd (getUserOrCreateFromWordPress (environment None)
              (identity ''42'' ''ana@x.com'' [''subscriber''] (Some ''2'')) (store [] [])))
     = getUserOrCreateFromWordPress (environment None)
        (identity ''42'' ''ana@x.com'' [''subscriber''] (Some ''2'')) (store [] [])"
proof -
  let ?e = "environment None"
  let ?wp = "identity ''42'' ''ana@x.com'' [''subscriber''] (Some ''2'')"
  let ?w = "store [] []"
  have "\<exists>u w1. getUserOrCreateFromWordPress ?e ?wp ?w = (Inr u, w1) \<and> length (cjpol_users w1) = 1"
    by (simp add: service_defs config_defs example_defs Let_def)
  then obtain u w1 where first: "getUserOrCreateFromWordPress ?e ?wp ?w = (Inr u, w1)"
    and one: "length (cjpol_users w1) = 1"
    by blast
  have h1: "faults ?w = []"
    by (simp add: store_def)
  have h2: "length (filter (\<lambda>x. u_wordpress_id x = Some (wp_id ?wp)) (cjpol_users ?w)) \<le> 1"
    by (simp add: store_def)
  have h3: "wp_id ?wp \<noteq> []"
    by (simp add: identity_def)
  from reconcile_links [OF h1 h2 h3 first]
  have nofault: "faults w1 = []"
    and linked: "single (filter (\<lambda>x. u_wordpress_id x = Some (wp_id ?wp)) (cjpol_users w1)) = Some u"
    and sync: "u_name u = wp_name ?wp \<and> u_email u = wp_email ?wp
            \<and> u_role u = assignedRole ?e ?wp
            \<and> (isDevModeUser ?e ?wp \<longrightarrow> u_credits u = DEV_MODE_CREDITS ?e)"
    by simp_all
  from reconcile_again_is_idempotent [OF nofault linked, of ?e] sync
  have "getUserOrCreateFromWordPress ?e ?wp w1 = (Inr u, w1)"
    by blast
  with first one show ?thesis
    by simp
qed


section \<open>Login and the credit balance\<close>

lemma u_credits_membership:
  "updateUserMembership i lvl w = (Inr x, w') \<Longrightarrow> balance w' i = Some (mapMembershipToCredits lvl)"
proof -
  assume "updateUserMembership i lvl w = (Inr x, w')"
  then obtain p where upd: "updateUser i p w = (Inr x, w')"
    and p: "p_credits p = Some (mapMembershipToCredits lvl)"
    by (simp add: updateUserMembership_def Let_def)
  from updateUser_Inr [OF upd] p show ?thesis
    by (auto simp: balance_def filter_id_patched single_map u_credits_apply_patch set_col_def)
qed


text \<open>
  C5, as the code has it. Every successful \<open>authenticateWithWordPress\<close> of an identity
  that is not the development identity leaves the stored balance of the user equal to
  the allotment of the identity's membership level (5, 10 or 20), whatever the balance
  was before: \<open>updateUserMembership\<close> runs on every login and writes \<open>credits\<close>
  without comparing anything.
\<close>

theorem login_resets_credits:
  assumes verified: "verifyWordPressCredentials e wordpress username password req = Inr wpUser"
    and nodev: "\<not> isDevModeUser e wpUser"
    and ok: "authenticateWithWordPress e wordpress username password req w = (Inr (user, tok), w')"
  shows "balance w' (u_id user) = Some (mapMembershipToCredits (getMembershipLevel wpUser))
       \<and> mapMembershipToCredits (getMembershipLevel wpUser) \<in> {5, 10, 20}"
proof -
  from ok verified obtain w1 x where
    "updateUserMembership (u_id user) (getMembershipLevel wpUser) w1 = (Inr x, w')"
    by (auto simp: authenticateWithWordPress_def Let_def
        split: if_splits sum.splits prod.splits)
  from u_credits_membership [OF this]
  have "balance w' (u_id user) = Some (mapMembershipToCredits (getMembershipLevel wpUser))" .
  moreover have "mapMembershipToCredits (getMembershipLevel wpUser) \<in> {5, 10, 20}"
    by (simp add: membership_credits split: option.splits)
  ultimately show ?thesis
    by simp
qed



text \<open>A basic member with 3 credits left logs in and has 10 afterwards.\<close>

theorem login_resets_credits_witness:
  "\<not> isDevModeUser (environment None) (identity ''42'' ''ana@x.com'' [''subscriber''] (Some ''1''))
   \<and> verifyWordPressCredentials (environment None)
      (accepting_site (identity ''42'' ''ana@x.com'' [''subscriber''] (Some ''1'')))
      ''ana@x.com'' ''secret'' None
     = Inr (identity ''42'' ''ana@x.com'' [''subscriber''] (Some ''1''))
   \<and> (case authenticateWithWordPress (environment None)
        (accepting_site (identity ''42'' ''ana@x.com'' [''subscriber''] (Some ''1'')))
        ''ana@x.com'' ''secret'' None
        (store [stored_user ''u1'' ''ana@x.com'' ''user'' 3 (Some ''42'')] []) of
         (Inr (user, tok), w') \<Rightarrow> balance w' (u_id user) = Some 10
       | (Inl err, w') \<Rightarrow> False)"
proof -
  let ?e = "environment None"
  let ?wp = "identity ''42'' ''ana@x.com'' [''subscriber''] (Some ''1'')"
  let ?site = "accepting_site ?wp"
  let ?w = "store [stored_user ''u1'' ''ana@x.com'' ''user'' 3 (Some ''42'')] []"
  have v: "verifyWordPressCredentials ?e ?site ''ana@x.com'' ''secret'' None = Inr ?wp"
    by (simp add: verifyWordPressCredentials_def verifyWordPressCredentialsWithJWT_def
        accepting_site_def)
  have "\<exists>user tok w'. authenticateWithWordPress ?e ?site ''ana@x.com'' ''secret'' None ?w
          = (Inr (user, tok), w')"
    by (simp add: authenticateWithWordPress_def verifyWordPressCredentials_def
        verifyWordPressCredentialsWithJWT_def getMembershipLevel_def
        mapMembershipToCredits_def parseInt_defs
        generateToken_def jwt_sign_def service_defs config_defs example_defs Let_def)
  then obtain user tok w' where
    ok: "authenticateWithWordPress ?e ?site ''ana@x.com'' ''secret'' None ?w = (Inr (user, tok), w')"
    by blast
  have c: "mapMembershipToCredits (getMembershipLevel ?wp) = 10"
    by (simp add: membership_credits identity_def parseInt_defs)
  have nodev: "\<not> isDevModeUser ?e ?wp"
    by (simp add: isDevModeUser_def config_defs example_defs)
  from login_resets_credits [OF v nodev ok] c have "balance w' (u_id user) = Some 10"
    by simp
  with v nodev ok show ?thesis
    by simp
qed


text \<open>
  C5 as the specification states it fails: a complete member whose stored membership
  fields are up to date has 20 credits, consumes one, and logs in again in production
  mode; the login writes the balance back to 20.
\<close>

theorem login_overwrites_consumed_credits:
  "balance (store [stored_user ''u1'' ''ana@x.com'' ''user'' 20 (Some ''42'')] []) ''u1'' = Some 20
   \<and> balance (snd (consumeCredits ''u1'' 1
        (store [stored_user ''u1'' ''ana@x.com'' ''user'' 20 (Some ''42'')] []))) ''u1'' = Some 19
   \<and> balance (snd (authenticateWithWordPress (environment None)
        (accepting_site (identity ''42'' ''ana@x.com'' [''subscriber''] (Some ''2'')))
        ''ana@x.com'' ''secret'' None
        (snd (consumeCredits ''u1'' 1
           (store [stored_user ''u1'' ''ana@x.com'' ''user'' 20 (Some ''42'')] []))))) ''u1''
      = Some 20"
  by (simp add: balance_def consumeCredits_def number_minus_def authenticateWithWordPress_def
      verifyWordPressCredentials_def verifyWordPressCredentialsWithJWT_def
      getMembershipLevel_def mapMembershipToCredits_def parseInt_defs generateToken_def jwt_sign_def
      service_defs config_defs example_defs Let_def)


end
